theory Spec2Isabelle
  imports Complex_Main
begin

section \<open>The outside world\<close>

text \<open>
  The program is a Node.js server (\<^verbatim>\<open>real-bot-engine.js\<close>): a class \<^verbatim>\<open>RealBotEngine\<close>
  that talks to marketplaces and social platforms, and a server part with the user
  registry, the \<^verbatim>\<open>BotManager\<close> and the HTTP routes.

  Every awaited request to a third party is a step of the model: it is appended to the
  log \<open>calls\<close> of the world, it takes the time \<open>latency\<close> says, and its answer is read
  from an oracle of the environment \<open>env\<close>, given the clock at the moment of the request
  and the request's arguments. An answer \<open>Inl msg\<close> is a rejected promise (a thrown
  exception), \<open>Inr v\<close> a reply. \<^verbatim>\<open>Date.now()\<close> reads the field \<open>now\<close> (milliseconds).
  JavaScript numbers are modelled by exact reals.
\<close>

type_synonym 'a reply = "string + 'a"

datatype call =
    AmazonSearch string nat
  | TwitterUpload string
  | TwitterTweet string string
  | FacebookFeed string string
  | InstagramMedia string
  | InstagramPublish "string option"
  | PinterestPin string string
  | EbayOAuth
  | EbayPerformance string
  | AmazonEarnings
  | ClickbankEarnings
  | StripeIntent real
  | PaypalOrder real
  | PaypalCapture string

record world =
  now :: nat
  calls :: "call list"

record images =
  PrimaryImage :: "string option"

record item_info =
  Title :: string
  Features :: "string list option"
  Images :: "images option"

record product =
  ASIN :: string
  ItemInfo :: "item_info option"

record env =
  latency :: "nat \<Rightarrow> nat"
  lag :: "nat \<Rightarrow> nat"
  twitter_ctor :: bool
  facebook_ctor :: bool
  instagram_ctor :: bool
  amazon_search :: "nat \<Rightarrow> string \<Rightarrow> nat \<Rightarrow> product list option reply"
  twitter_upload :: "nat \<Rightarrow> string \<Rightarrow> string reply"
  twitter_tweet :: "nat \<Rightarrow> string \<Rightarrow> string \<Rightarrow> string option reply"
  facebook_graph :: "nat \<Rightarrow> string \<Rightarrow> string \<Rightarrow> string option reply"
  instagram_media :: "nat \<Rightarrow> string \<Rightarrow> string option reply"
  instagram_publish :: "nat \<Rightarrow> string option \<Rightarrow> string option reply"
  pinterest_pin :: "nat \<Rightarrow> string \<Rightarrow> string \<Rightarrow> string option reply"
  ebay_oauth :: "nat \<Rightarrow> string option reply"
  ebay_performance :: "nat \<Rightarrow> string \<Rightarrow> real option list option reply"
  amazon_earnings :: "nat \<Rightarrow> real option reply"
  clickbank_earnings :: "nat \<Rightarrow> real option reply"
  stripe_intent :: "nat \<Rightarrow> real \<Rightarrow> (string \<times> string) reply"
  paypal_order :: "nat \<Rightarrow> real \<Rightarrow> string reply"
  paypal_capture :: "nat \<Rightarrow> string \<Rightarrow> (string \<times> string) reply"

text \<open>An awaited third-party request: logged, and the clock advances by its latency.\<close>

definition request :: "env \<Rightarrow> call \<Rightarrow> world \<Rightarrow> world" where
  "request e c x = x\<lparr>calls := calls x @ [c], now := now x + latency e (now x)\<rparr>"

text \<open>
  \<^verbatim>\<open>await new Promise(resolve => setTimeout(resolve, ms))\<close>: the timer fires no earlier
  than \<open>ms\<close> milliseconds later, \<open>lag\<close> is how late.
\<close>

definition sleep :: "env \<Rightarrow> nat \<Rightarrow> world \<Rightarrow> world" where
  "sleep e ms x = x\<lparr>now := now x + ms + lag e (now x)\<rparr>"

text \<open>JavaScript truthiness of a value that is a string or \<^verbatim>\<open>undefined\<close>.\<close>

fun truthy :: "string option \<Rightarrow> bool" where
  "truthy None = False"
| "truthy (Some s) = (s \<noteq> [])"

section \<open>RealBotEngine\<close>

text \<open>
  The configuration, in the shape the server builds it: every platform section is
  present, and a field is \<open>None\<close> when its environment variable is undefined.
\<close>

record config =
  amazon_access_key :: "string option"
  amazon_affiliate_tag :: "string option"
  twitter_consumer_key :: "string option"
  twitter_consumer_secret :: "string option"
  twitter_access_token :: "string option"
  twitter_access_secret :: "string option"
  facebook_access_token :: "string option"
  facebook_page_id :: "string option"
  instagram_access_token :: "string option"
  instagram_user_id :: "string option"
  pinterest_access_token :: "string option"
  pinterest_board_id :: "string option"

text \<open>
  The engine: its configuration and whether each client object exists
  (\<^verbatim>\<open>this.twitter\<close>, \<^verbatim>\<open>this.facebook\<close>, \<^verbatim>\<open>this.instagram\<close> are a client or \<^verbatim>\<open>null\<close>).
\<close>

record engine =
  config :: config
  twitter :: bool
  facebook :: bool
  instagram :: bool

text \<open>
  \<^verbatim>\<open>initializeClients\<close>: a client is built when its keys are truthy and the SDK's
  constructor does not throw (\<open>twitter_ctor\<close> and the like say whether it returns).
  For Twitter the test reads the consumer key and secret only; the access token and
  secret are handed to the constructor as they are.
\<close>

definition initializeClients :: "env \<Rightarrow> config \<Rightarrow> engine" where
  "initializeClients e c =
     \<lparr> config = c,
       twitter = (if truthy (twitter_consumer_key c) \<and> truthy (twitter_consumer_secret c)
                  then twitter_ctor e else False),
       facebook = (if truthy (facebook_access_token c) then facebook_ctor e else False),
       instagram = (if truthy (instagram_access_token c) then instagram_ctor e else False) \<rparr>"

definition RealBotEngine :: "env \<Rightarrow> config \<Rightarrow> engine" where
  "RealBotEngine e c = initializeClients e c"

text \<open>
  \<^verbatim>\<open>fetchAmazonProducts\<close>: one search request; the reply's
  \<^verbatim>\<open>SearchResult?.Items || []\<close> is returned as it is, and a rejected request gives
  \<^verbatim>\<open>[]\<close>.
\<close>

definition fetchAmazonProducts ::
  "env \<Rightarrow> engine \<Rightarrow> string \<Rightarrow> nat \<Rightarrow> world \<Rightarrow> product list \<times> world" where
  "fetchAmazonProducts e eng keyword maxProducts x =
     (let x1 = request e (AmazonSearch keyword maxProducts) x in
      case amazon_search e (now x) keyword maxProducts of
        Inl err \<Rightarrow> ([], x1)
      | Inr None \<Rightarrow> ([], x1)
      | Inr (Some items) \<Rightarrow> (items, x1))"

text \<open>
  A post identifier: \<open>Remote s\<close> is the identifier a platform returned, \<open>Local p t\<close> is
  the string \<^verbatim>\<open>p + Date.now()\<close> that the two placeholder publishers make up.
\<close>

datatype post_id = Remote string | Local string nat

fun truthy_id :: "post_id option \<Rightarrow> bool" where
  "truthy_id None = False"
| "truthy_id (Some (Remote s)) = (s \<noteq> [])"
| "truthy_id (Some (Local p t)) = True"

definition remote :: "string option \<Rightarrow> post_id option" where
  "remote r = map_option Remote r"

text \<open>
  The publishers. Inside each \<^verbatim>\<open>try\<close>, reading a property of an undefined
  \<^verbatim>\<open>ItemInfo\<close> or \<^verbatim>\<open>Images\<close> throws a TypeError that the \<^verbatim>\<open>catch\<close> turns into
  \<^verbatim>\<open>null\<close>; so does a rejected request.
\<close>

definition tweet :: "env \<Rightarrow> string \<Rightarrow> string \<Rightarrow> world \<Rightarrow> post_id option \<times> world" where
  "tweet e title link x =
     (case twitter_tweet e (now x) title link of
        Inl err \<Rightarrow> (None, request e (TwitterTweet title link) x)
      | Inr r \<Rightarrow> (remote r, request e (TwitterTweet title link) x))"

definition postToTwitter ::
  "env \<Rightarrow> engine \<Rightarrow> product \<Rightarrow> string \<Rightarrow> world \<Rightarrow> post_id option \<times> world" where
  "postToTwitter e eng p link x =
     (if \<not> twitter eng then (None, x)
      else case ItemInfo p of
        None \<Rightarrow> (None, x)
      | Some info \<Rightarrow>
         (case Images info of
            None \<Rightarrow> (None, x)
          | Some imgs \<Rightarrow>
             (case PrimaryImage imgs of
                None \<Rightarrow> tweet e (Title info) link x
              | Some url \<Rightarrow>
                 (case twitter_upload e (now x) url of
                    Inl err \<Rightarrow> (None, request e (TwitterUpload url) x)
                  | Inr mediaId \<Rightarrow> tweet e (Title info) link (request e (TwitterUpload url) x)))))"

definition postToFacebook ::
  "env \<Rightarrow> engine \<Rightarrow> product \<Rightarrow> string \<Rightarrow> world \<Rightarrow> post_id option \<times> world" where
  "postToFacebook e eng p link x =
     (if \<not> facebook eng \<or> \<not> truthy (facebook_page_id (config eng)) then (None, x)
      else case ItemInfo p of
        None \<Rightarrow> (None, x)
      | Some info \<Rightarrow>
         (case Images info of
            None \<Rightarrow> (None, x)
          | Some imgs \<Rightarrow>
             (let page = the (facebook_page_id (config eng));
                  x1 = request e (FacebookFeed page link) x in
              case facebook_graph e (now x) page link of
                Inl err \<Rightarrow> (None, x1)
              | Inr r \<Rightarrow> (remote r, x1))))"

definition postToInstagram ::
  "env \<Rightarrow> engine \<Rightarrow> product \<Rightarrow> string \<Rightarrow> world \<Rightarrow> post_id option \<times> world" where
  "postToInstagram e eng p link x =
     (if \<not> instagram eng \<or> \<not> truthy (instagram_user_id (config eng)) then (None, x)
      else case ItemInfo p of
        None \<Rightarrow> (None, x)
      | Some info \<Rightarrow>
         (case Images info of
            None \<Rightarrow> (None, x)
          | Some imgs \<Rightarrow>
             (let x1 = request e (InstagramMedia (Title info)) x in
              case instagram_media e (now x) (Title info) of
                Inl err \<Rightarrow> (None, x1)
              | Inr creation \<Rightarrow>
                 (let x2 = request e (InstagramPublish creation) x1 in
                  case instagram_publish e (now x1) creation of
                    Inl err \<Rightarrow> (None, x2)
                  | Inr r \<Rightarrow> (remote r, x2)))))"

definition postToTikTok ::
  "env \<Rightarrow> engine \<Rightarrow> product \<Rightarrow> string \<Rightarrow> world \<Rightarrow> post_id option \<times> world" where
  "postToTikTok e eng p link x =
     (case ItemInfo p of
        None \<Rightarrow> (None, x)
      | Some info \<Rightarrow> (Some (Local ''tiktok_'' (now x)), x))"

definition postToPinterest ::
  "env \<Rightarrow> engine \<Rightarrow> product \<Rightarrow> string \<Rightarrow> world \<Rightarrow> post_id option \<times> world" where
  "postToPinterest e eng p link x =
     (case ItemInfo p of
        None \<Rightarrow> (None, x)
      | Some info \<Rightarrow>
         (case Images info of
            None \<Rightarrow> (None, x)
          | Some imgs \<Rightarrow>
             (let x1 = request e (PinterestPin (Title info) link) x in
              case pinterest_pin e (now x) (Title info) link of
                Inl err \<Rightarrow> (None, x1)
              | Inr r \<Rightarrow> (remote r, x1))))"

definition postToEbay ::
  "env \<Rightarrow> engine \<Rightarrow> product \<Rightarrow> string \<Rightarrow> world \<Rightarrow> post_id option \<times> world" where
  "postToEbay e eng p link x =
     (case ItemInfo p of
        None \<Rightarrow> (None, x)
      | Some info \<Rightarrow> (Some (Local ''ebay_'' (now x)), x))"

text \<open>
  \<^verbatim>\<open>generateAffiliateLinks\<close>: the product page with the configured tag; an undefined
  tag is interpolated as the text \<^verbatim>\<open>undefined\<close>.
\<close>

definition generateAffiliateLinks :: "engine \<Rightarrow> product \<Rightarrow> string" where
  "generateAffiliateLinks eng p =
     ''https://amazon.com/dp/'' @ ASIN p @ ''?tag='' @
       (case amazon_affiliate_tag (config eng) of None \<Rightarrow> ''undefined'' | Some t \<Rightarrow> t) @
       ''&ref=paapi5_dp''"

record post_result =
  pr_platform :: string
  pr_postId :: post_id
  pr_product :: string
  pr_affiliateLink :: string
  pr_timestamp :: nat

text \<open>The \<^verbatim>\<open>switch (platform)\<close> of the cycle; it has no default case.\<close>

definition publish ::
  "env \<Rightarrow> engine \<Rightarrow> string \<Rightarrow> product \<Rightarrow> string \<Rightarrow> world \<Rightarrow> post_id option \<times> world" where
  "publish e eng pf p link x =
     (if pf = ''twitter'' then postToTwitter e eng p link x
      else if pf = ''facebook'' then postToFacebook e eng p link x
      else if pf = ''instagram'' then postToInstagram e eng p link x
      else if pf = ''tiktok'' then postToTikTok e eng p link x
      else if pf = ''pinterest'' then postToPinterest e eng p link x
      else if pf = ''ebay'' then postToEbay e eng p link x
      else (None, x))"

text \<open>
  The inner loop \<^verbatim>\<open>for (const platform of platforms)\<close> for one product: a result is
  pushed when \<^verbatim>\<open>if (postId)\<close> holds, with the clock read after the publisher returned.
\<close>

fun publish_each ::
  "env \<Rightarrow> engine \<Rightarrow> product \<Rightarrow> string \<Rightarrow> string \<Rightarrow> string list \<Rightarrow> world
     \<Rightarrow> post_result list \<times> world" where
  "publish_each e eng p title link [] x = ([], x)"
| "publish_each e eng p title link (pf # pfs) x =
     (let (r, x1) = publish e eng pf p link x;
          pushed = (if truthy_id r
                    then [\<lparr> pr_platform = pf, pr_postId = the r, pr_product = title,
                            pr_affiliateLink = link, pr_timestamp = now x1 \<rparr>]
                    else []);
          (rest, x2) = publish_each e eng p title link pfs x1
      in (pushed @ rest, x2))"

text \<open>
  The outer loop \<^verbatim>\<open>for (const product of products)\<close>. Logging
  \<^verbatim>\<open>product.ItemInfo.Title\<close> throws for a product without \<^verbatim>\<open>ItemInfo\<close>; the
  \<^verbatim>\<open>catch\<close> then moves on to the next product, without the two-second pause.
\<close>

fun process_products ::
  "env \<Rightarrow> engine \<Rightarrow> string list \<Rightarrow> product list \<Rightarrow> world \<Rightarrow> post_result list \<times> world" where
  "process_products e eng pfs [] x = ([], x)"
| "process_products e eng pfs (p # ps) x =
     (case ItemInfo p of
        None \<Rightarrow> process_products e eng pfs ps x
      | Some info \<Rightarrow>
         (let (rs, x1) = publish_each e eng p (Title info) (generateAffiliateLinks eng p) pfs x;
              x2 = sleep e 2000 x1;
              (rest, x3) = process_products e eng pfs ps x2
          in (rs @ rest, x3)))"

definition runBotCycle ::
  "env \<Rightarrow> engine \<Rightarrow> string \<Rightarrow> string list \<Rightarrow> world \<Rightarrow> post_result list \<times> world" where
  "runBotCycle e eng keyword pfs x =
     (let (products, x1) = fetchAmazonProducts e eng keyword 5 x
      in process_products e eng pfs products x1)"

text \<open>
  What the specification asks of a cycle, in its own terms: one entry for each pair of a
  fetched product and a requested platform for which publishing succeeds (\<open>ok\<close>),
  products in fetch order, platforms in the caller's order within a product. An entry
  is named by the product's title, its affiliate link and the platform.
\<close>

definition expected_pairs ::
  "engine \<Rightarrow> (product \<Rightarrow> string \<Rightarrow> bool) \<Rightarrow> string list \<Rightarrow> product list
     \<Rightarrow> (string \<times> string \<times> string) list" where
  "expected_pairs eng ok pfs ps =
     concat (map (\<lambda>p. case ItemInfo p of
                        None \<Rightarrow> []
                      | Some info \<Rightarrow> map (\<lambda>pf. (Title info, generateAffiliateLinks eng p, pf))
                                       (filter (ok p) pfs)) ps)"

text \<open>
  The publisher calls a cycle makes, in the order it makes them: the product, the
  platform, what the publisher returned and the clock when it returned. The claim
  about a cycle's results is a claim about these calls.
\<close>

fun calls_each ::
  "env \<Rightarrow> engine \<Rightarrow> product \<Rightarrow> string \<Rightarrow> string list \<Rightarrow> world
     \<Rightarrow> (product \<times> string \<times> post_id option \<times> nat) list \<times> world" where
  "calls_each e eng p link [] x = ([], x)"
| "calls_each e eng p link (pf # pfs) x =
     (let (r, x1) = publish e eng pf p link x;
          (rest, x2) = calls_each e eng p link pfs x1
      in ((p, pf, r, now x1) # rest, x2))"

fun publisher_calls ::
  "env \<Rightarrow> engine \<Rightarrow> string list \<Rightarrow> product list \<Rightarrow> world
     \<Rightarrow> (product \<times> string \<times> post_id option \<times> nat) list" where
  "publisher_calls e eng pfs [] x = []"
| "publisher_calls e eng pfs (p # ps) x =
     (case ItemInfo p of
        None \<Rightarrow> publisher_calls e eng pfs ps x
      | Some info \<Rightarrow>
         (let (cs, x1) = calls_each e eng p (generateAffiliateLinks eng p) pfs x
          in cs @ publisher_calls e eng pfs ps (sleep e 2000 x1)))"

text \<open>The result the cycle records for a call that returned an identifier.\<close>

fun recorded :: "engine \<Rightarrow> product \<times> string \<times> post_id option \<times> nat \<Rightarrow> post_result" where
  "recorded eng (p, pf, r, t) =
     \<lparr> pr_platform = pf, pr_postId = the r,
       pr_product = (case ItemInfo p of None \<Rightarrow> [] | Some info \<Rightarrow> Title info),
       pr_affiliateLink = generateAffiliateLinks eng p, pr_timestamp = t \<rparr>"

subsection \<open>Earnings\<close>

text \<open>\<^verbatim>\<open>response.data.totalEarnings || 0\<close>: an absent or zero figure counts as 0.\<close>

fun or_zero :: "real option \<Rightarrow> real" where
  "or_zero None = 0"
| "or_zero (Some v) = (if v = 0 then 0 else v)"

definition getAmazonEarnings :: "env \<Rightarrow> world \<Rightarrow> real \<times> world" where
  "getAmazonEarnings e x =
     (case amazon_earnings e (now x) of
        Inl err \<Rightarrow> (0, request e AmazonEarnings x)
      | Inr r \<Rightarrow> (or_zero r, request e AmazonEarnings x))"

definition getClickbankEarnings :: "env \<Rightarrow> world \<Rightarrow> real \<times> world" where
  "getClickbankEarnings e x =
     (case clickbank_earnings e (now x) of
        Inl err \<Rightarrow> (0, request e ClickbankEarnings x)
      | Inr r \<Rightarrow> (or_zero r, request e ClickbankEarnings x))"

definition getEbayAccessToken :: "env \<Rightarrow> world \<Rightarrow> string option \<times> world" where
  "getEbayAccessToken e x =
     (case ebay_oauth e (now x) of
        Inl err \<Rightarrow> (None, request e EbayOAuth x)
      | Inr tok \<Rightarrow> (tok, request e EbayOAuth x))"

text \<open>
  \<^verbatim>\<open>performanceData?.reduce((total, item) => total + (item.totalEarnings || 0), 0) || 0\<close>
\<close>

fun performance_total :: "real option list option \<Rightarrow> real" where
  "performance_total None = 0"
| "performance_total (Some items) = or_zero (Some (foldl (\<lambda>t item. t + or_zero item) 0 items))"

definition getEbayEarnings :: "env \<Rightarrow> world \<Rightarrow> real \<times> world" where
  "getEbayEarnings e x =
     (let (tok, x1) = getEbayAccessToken e x in
      if \<not> truthy tok then (0, x1)
      else case ebay_performance e (now x1) (the tok) of
             Inl err \<Rightarrow> (0, request e (EbayPerformance (the tok)) x1)
           | Inr r \<Rightarrow> (performance_total r, request e (EbayPerformance (the tok)) x1))"

record snapshot =
  e_amazon :: real
  e_clickbank :: real
  e_ebay :: real
  e_total :: real
  e_timestamp :: nat

text \<open>
  \<^verbatim>\<open>RealBotEngine.trackAffiliateEarnings\<close>. The three getters catch their own failures
  and return a number, so the outer \<^verbatim>\<open>catch\<close> of the source has nothing to catch.
\<close>

definition trackAffiliateEarnings :: "env \<Rightarrow> world \<Rightarrow> snapshot \<times> world" where
  "trackAffiliateEarnings e x =
     (let (amazonEarnings, x1) = getAmazonEarnings e x;
          (clickbankEarnings, x2) = getClickbankEarnings e x1;
          (ebayEarnings, x3) = getEbayEarnings e x2
      in (\<lparr> e_amazon = amazonEarnings, e_clickbank = clickbankEarnings, e_ebay = ebayEarnings,
            e_total = amazonEarnings + clickbankEarnings + ebayEarnings,
            e_timestamp = now x3 \<rparr>, x3))"

section \<open>The server\<close>

datatype error = TypeError string | Error string

datatype txn = Txn string | Bank nat

record withdrawal =
  w_id :: nat
  w_userId :: string
  w_amount :: real
  w_method :: string
  w_date :: nat
  w_status :: string
  w_transactionId :: txn
  w_fee :: real
  w_processingTime :: string

text \<open>
  A user as \<^verbatim>\<open>/api/user-data\<close> creates it; the fields no modelled route reads
  (\<^verbatim>\<open>botStats\<close>, \<^verbatim>\<open>cryptoWallets\<close>, \<^verbatim>\<open>activities\<close>) are left out. \<open>activeBots\<close> is
  \<open>None\<close> when the property is undefined.
\<close>

record user =
  uid :: string
  totalEarnings :: real
  availableBalance :: real
  totalRevenue :: real
  totalProfit :: real
  activeBots :: "(string \<rightharpoonup> bool) option"
  withdrawalHistory :: "withdrawal list"

record bot_config =
  cfg_keywords :: "string list"
  cfg_platforms :: "string list"

text \<open>The events pushed to a user's room, with the fields of their payloads.\<close>

datatype activity =
    Started
  | Stopped
  | Fetching
  | RealEarnings real nat
  | Completed nat "string list" "post_result list"
  | ManualRun string

datatype event =
    Bot_activity string activity nat
  | Earning_update string real snapshot nat
  | Withdrawal_status nat string real "string + txn"

text \<open>
  The state of the process: the outside world, the three global maps (\<open>users\<close> keeps
  the insertion order of the JavaScript \<^verbatim>\<open>Map\<close>, which the background loop iterates),
  the events emitted so far, the maps of the \<^verbatim>\<open>BotManager\<close>, and the interval timers
  of the event loop that are still scheduled: identifier, and the \<^verbatim>\<open>userId\<close> and
  \<^verbatim>\<open>platform\<close> their callback passes to \<^verbatim>\<open>runRealBotCycle\<close>.
\<close>

record server =
  outside :: world
  botEngine :: engine
  paypalClient :: bool
  users :: "(string \<times> user) list"
  withdrawals :: "nat \<rightharpoonup> withdrawal"
  emitted :: "(string \<times> event) list"
  botIntervals :: "string \<rightharpoonup> nat"
  userConfigs :: "string \<rightharpoonup> bot_config"
  timers :: "(nat \<times> string \<times> string) list"
  next_timer :: nat

text \<open>\<^verbatim>\<open>Map.prototype.set\<close>: an existing key keeps its place, a new one goes last.\<close>

fun map_set :: "'k \<Rightarrow> 'v \<Rightarrow> ('k \<times> 'v) list \<Rightarrow> ('k \<times> 'v) list" where
  "map_set k v [] = [(k, v)]"
| "map_set k v ((k', v') # kvs) = (if k' = k then (k, v) # kvs else (k', v') # map_set k v kvs)"

definition emit :: "string \<Rightarrow> event \<Rightarrow> server \<Rightarrow> server" where
  "emit room ev s = s\<lparr>emitted := emitted s @ [(room, ev)]\<rparr>"

definition setInterval :: "string \<Rightarrow> string \<Rightarrow> server \<Rightarrow> nat \<times> server" where
  "setInterval userId pf s =
     (next_timer s,
      s\<lparr>timers := timers s @ [(next_timer s, userId, pf)], next_timer := Suc (next_timer s)\<rparr>)"

definition clearInterval :: "nat \<Rightarrow> server \<Rightarrow> server" where
  "clearInterval tid s = s\<lparr>timers := filter (\<lambda>t. fst t \<noteq> tid) (timers s)\<rparr>"

text \<open>The timers that would still call the cycle for a user and platform.\<close>

definition timers_of :: "server \<Rightarrow> string \<Rightarrow> string \<Rightarrow> nat list" where
  "timers_of s userId pf = map fst (filter (\<lambda>t. snd t = (userId, pf)) (timers s))"

subsection \<open>Payments\<close>

record withdrawal_request =
  q_userId :: string
  q_amount :: real
  q_method :: string

record payment_result =
  success :: bool
  transactionId :: txn
  fee :: real
  processingTime :: string

definition processWithdrawal ::
  "env \<Rightarrow> bool \<Rightarrow> withdrawal_request \<Rightarrow> world \<Rightarrow> (error + payment_result) \<times> world" where
  "processWithdrawal e paypal q x =
     (if q_method q = ''stripe'' then
        (case stripe_intent e (now x) (q_amount q) of
           Inl err \<Rightarrow> (Inl (Error err), request e (StripeIntent (q_amount q)) x)
         | Inr (status, ident) \<Rightarrow>
            (Inr \<lparr> success = (status = ''succeeded''), transactionId = Txn ident,
                   fee = q_amount q * 0.029 + 0.30, processingTime = ''instant'' \<rparr>,
             request e (StripeIntent (q_amount q)) x))
      else if q_method q = ''paypal'' then
        (if \<not> paypal then (Inl (Error ''PayPal not configured''), x)
         else case paypal_order e (now x) (q_amount q) of
           Inl err \<Rightarrow> (Inl (Error err), request e (PaypalOrder (q_amount q)) x)
         | Inr order \<Rightarrow>
            (let x1 = request e (PaypalOrder (q_amount q)) x in
             case paypal_capture e (now x1) order of
               Inl err \<Rightarrow> (Inl (Error err), request e (PaypalCapture order) x1)
             | Inr (status, ident) \<Rightarrow>
                (Inr \<lparr> success = (status = ''COMPLETED''), transactionId = Txn ident,
                       fee = q_amount q * 0.0349 + 0.30, processingTime = ''instant'' \<rparr>,
                 request e (PaypalCapture order) x1)))
      else if q_method q = ''bank'' then
        (Inr \<lparr> success = True, transactionId = Bank (now x), fee = 0,
               processingTime = ''1-3 business days'' \<rparr>, x)
      else (Inl (Error ''Unsupported payment method''), x))"

datatype withdraw_response = Withdrawn nat txn | Withdraw_failed string

fun error_message :: "error \<Rightarrow> string" where
  "error_message (TypeError m) = m"
| "error_message (Error m) = m"

text \<open>The \<^verbatim>\<open>catch\<close> of \<^verbatim>\<open>/api/withdraw\<close>: a failed status is emitted and returned.\<close>

definition withdraw_failed :: "nat \<Rightarrow> withdrawal_request \<Rightarrow> string \<Rightarrow> server
    \<Rightarrow> withdraw_response \<times> server" where
  "withdraw_failed withdrawalId q msg s =
     (Withdraw_failed msg,
      emit (q_userId q) (Withdrawal_status withdrawalId ''failed'' (q_amount q) (Inl msg)) s)"

definition withdraw_completed :: "nat \<Rightarrow> withdrawal_request \<Rightarrow> payment_result \<Rightarrow> server
    \<Rightarrow> withdraw_response \<times> server" where
  "withdraw_completed withdrawalId q pay s =
     (let wd = \<lparr> w_id = withdrawalId, w_userId = q_userId q, w_amount = q_amount q,
                 w_method = q_method q, w_date = now (outside s), w_status = ''completed'',
                 w_transactionId = transactionId pay, w_fee = fee pay,
                 w_processingTime = processingTime pay \<rparr>;
          s1 = (case map_of (users s) (q_userId q) of
                  None \<Rightarrow> s
                | Some u \<Rightarrow>
                   s\<lparr>users := map_set (q_userId q)
                        (u\<lparr>availableBalance := availableBalance u - q_amount q,
                           withdrawalHistory := wd # withdrawalHistory u\<rparr>) (users s)\<rparr>);
          s2 = s1\<lparr>withdrawals := (withdrawals s1)(withdrawalId \<mapsto> wd)\<rparr>
      in (Withdrawn withdrawalId (transactionId pay),
          emit (q_userId q)
            (Withdrawal_status withdrawalId ''completed'' (q_amount q) (Inr (transactionId pay)))
            s2))"

text \<open>\<^verbatim>\<open>app.post('/api/withdraw')\<close>; the identifier is \<^verbatim>\<open>'withdraw_' + Date.now()\<close>.\<close>

definition withdraw :: "env \<Rightarrow> withdrawal_request \<Rightarrow> server \<Rightarrow> withdraw_response \<times> server" where
  "withdraw e q s =
     (let withdrawalId = now (outside s);
          (r, x1) = processWithdrawal e (paypalClient s) q (outside s);
          s1 = s\<lparr>outside := x1\<rparr>
      in case r of
           Inl err \<Rightarrow> withdraw_failed withdrawalId q (error_message err) s1
         | Inr pay \<Rightarrow>
            (if success pay then withdraw_completed withdrawalId q pay s1
             else withdraw_failed withdrawalId q ''Payment processing failed'' s1))"

subsection \<open>BotManager\<close>

text \<open>The key \<^verbatim>\<open>`${userId}_${platform}`\<close> of \<open>botIntervals\<close> and \<open>userConfigs\<close>.\<close>

definition bot_key :: "string \<Rightarrow> string \<Rightarrow> string" where
  "bot_key userId pf = userId @ ''_'' @ pf"

text \<open>\<^verbatim>\<open>user.activeBots && user.activeBots[platform]\<close> as a condition.\<close>

definition is_active :: "user \<Rightarrow> string \<Rightarrow> bool" where
  "is_active u pf = (case activeBots u of None \<Rightarrow> False | Some ab \<Rightarrow> ab pf = Some True)"

text \<open>
  \<^verbatim>\<open>startBot\<close>. The guard \<^verbatim>\<open>if (!user || !user.activeBots) user.activeBots = {}\<close>
  assigns to a property of \<^verbatim>\<open>undefined\<close> when the user is unknown, which throws a
  TypeError before anything else happens. Otherwise the flag is set, the configuration
  stored, a new interval timer scheduled and its handle stored under the key, replacing
  the handle that was there.
\<close>

definition startBot ::
  "string \<Rightarrow> string \<Rightarrow> string list \<Rightarrow> server \<Rightarrow> (error + bool) \<times> server" where
  "startBot userId pf kws s =
     (case map_of (users s) userId of
        None \<Rightarrow> (Inl (TypeError ''Cannot set properties of undefined (setting activeBots)''), s)
      | Some u \<Rightarrow>
         (let ab = (case activeBots u of None \<Rightarrow> Map.empty | Some m \<Rightarrow> m);
              s1 = s\<lparr>users := map_set userId (u\<lparr>activeBots := Some (ab(pf \<mapsto> True))\<rparr>) (users s)\<rparr>;
              s2 = s1\<lparr>userConfigs := (userConfigs s1)(bot_key userId pf \<mapsto>
                      \<lparr> cfg_keywords = (if length kws > 0 then kws
                                          else [''trending'', ''popular'', ''bestseller'']),
                        cfg_platforms = [pf] \<rparr>)\<rparr>;
              (interval, s3) = setInterval userId pf s2;
              s4 = s3\<lparr>botIntervals := (botIntervals s3)(bot_key userId pf \<mapsto> interval)\<rparr>
          in (Inr True, emit userId (Bot_activity pf Started (now (outside s4))) s4)))"

definition stopBot :: "string \<Rightarrow> string \<Rightarrow> server \<Rightarrow> bool \<times> server" where
  "stopBot userId pf s =
     (let s1 = (case map_of (users s) userId of
                  None \<Rightarrow> s
                | Some u \<Rightarrow>
                   (case activeBots u of
                      None \<Rightarrow> s
                    | Some ab \<Rightarrow>
                       s\<lparr>users := map_set userId (u\<lparr>activeBots := Some (ab(pf \<mapsto> False))\<rparr>)
                                    (users s)\<rparr>));
          intervalKey = bot_key userId pf;
          s2 = (case botIntervals s1 intervalKey of
                  None \<Rightarrow> s1
                | Some interval \<Rightarrow>
                   (clearInterval interval s1)\<lparr>botIntervals := (botIntervals s1)(intervalKey := None)\<rparr>)
      in (True, emit userId (Bot_activity pf Stopped (now (outside s2))) s2))"

text \<open>
  The loop over the configured keywords of a tick: one cycle per keyword, then a pause
  of five seconds.
\<close>

fun run_keywords ::
  "env \<Rightarrow> engine \<Rightarrow> string list \<Rightarrow> string list \<Rightarrow> world \<Rightarrow> post_result list \<times> world" where
  "run_keywords e eng [] pfs x = ([], x)"
| "run_keywords e eng (keyword # kws) pfs x =
     (let (results, x1) = runBotCycle e eng keyword pfs x;
          x2 = sleep e 5000 x1;
          (rest, x3) = run_keywords e eng kws pfs x2
      in (results @ rest, x3))"

text \<open>\<^verbatim>\<open>(user.totalEarnings || 0) + earnings.total\<close> and its three siblings.\<close>

definition apply_earnings :: "real \<Rightarrow> user \<Rightarrow> user" where
  "apply_earnings t u =
     u\<lparr>totalEarnings := or_zero (Some (totalEarnings u)) + t,
       availableBalance := or_zero (Some (availableBalance u)) + t,
       totalRevenue := or_zero (Some (totalRevenue u)) + t,
       totalProfit := or_zero (Some (totalProfit u)) + t * 0.8\<rparr>"

text \<open>
  \<^verbatim>\<open>runRealBotCycle\<close>, the callback of the interval timers. In the model nothing inside
  its \<^verbatim>\<open>try\<close> can throw (the cycle and the earnings poll return values), so the
  \<^verbatim>\<open>catch\<close> has no branch here.
\<close>

definition runRealBotCycle :: "env \<Rightarrow> string \<Rightarrow> string \<Rightarrow> server \<Rightarrow> server" where
  "runRealBotCycle e userId pf s =
     (case map_of (users s) userId of
        None \<Rightarrow> s
      | Some u \<Rightarrow>
         if \<not> is_active u pf then s
         else case userConfigs s (bot_key userId pf) of
           None \<Rightarrow> s
         | Some cfg \<Rightarrow>
            (let s1 = emit userId (Bot_activity pf Fetching (now (outside s))) s;
                 (searchResults, x1) =
                    run_keywords e (botEngine s1) (cfg_keywords cfg) (cfg_platforms cfg) (outside s1);
                 (earnings, x2) = trackAffiliateEarnings e x1;
                 s2 = s1\<lparr>outside := x2\<rparr>;
                 s3 = (if e_total earnings > 0
                       then emit userId
                              (Bot_activity pf (RealEarnings (e_total earnings) (length searchResults)) (now x2))
                              (emit userId (Earning_update pf (e_total earnings) earnings (now x2))
                                 (s2\<lparr>users := map_set userId (apply_earnings (e_total earnings) u)
                                                  (users s2)\<rparr>))
                       else s2)
             in emit userId
                  (Bot_activity pf (Completed (length searchResults) (cfg_platforms cfg) searchResults)
                     (now x2)) s3))"

text \<open>An interval timer fires: its callback runs if the timer is still scheduled.\<close>

definition fire :: "env \<Rightarrow> nat \<Rightarrow> server \<Rightarrow> server" where
  "fire e tid s =
     (case find (\<lambda>t. fst t = tid) (timers s) of
        None \<Rightarrow> s
      | Some (i, userId, pf) \<Rightarrow> runRealBotCycle e userId pf s)"

record manual_result =
  m_success :: bool
  m_posts :: "post_result list"
  m_earnings :: real
  m_timestamp :: nat

definition runManualCycle ::
  "env \<Rightarrow> string \<Rightarrow> string \<Rightarrow> string \<Rightarrow> server \<Rightarrow> (error + manual_result) \<times> server" where
  "runManualCycle e userId pf keyword s =
     (case userConfigs s (bot_key userId pf) of
        None \<Rightarrow> (Inl (Error ''Bot not started - start the bot first''), s)
      | Some cfg \<Rightarrow>
         (let s1 = emit userId (Bot_activity pf (ManualRun keyword) (now (outside s))) s;
              (results, x1) = runBotCycle e (botEngine s1) keyword [pf] (outside s1);
              (earnings, x2) = trackAffiliateEarnings e x1
          in (Inr \<lparr> m_success = True, m_posts = results, m_earnings = e_total earnings,
                    m_timestamp = now x2 \<rparr>,
              s1\<lparr>outside := x2\<rparr>)))"

subsection \<open>Routes\<close>

text \<open>\<^verbatim>\<open>app.get('/api/user-data')\<close>: the one place that creates a user.\<close>

definition newUser :: "string \<Rightarrow> user" where
  "newUser userId =
     \<lparr> uid = userId, totalEarnings = 0, availableBalance = 0, totalRevenue = 0,
       totalProfit = 0, activeBots = Some Map.empty, withdrawalHistory = [] \<rparr>"

definition user_data :: "string \<Rightarrow> server \<Rightarrow> user \<times> server" where
  "user_data userId s =
     (case map_of (users s) userId of
        None \<Rightarrow> (newUser userId, s\<lparr>users := map_set userId (newUser userId) (users s)\<rparr>)
      | Some u \<Rightarrow> (u, s))"

text \<open>
  The values the server-side \<^verbatim>\<open>trackAffiliateEarnings(userId)\<close> returns are object
  literals; they are modelled with their property names, since the callers read a
  property of them by name.
\<close>

datatype jsval = JNum real | JStr string | JObj "(string \<times> jsval) list"

text \<open>
  The object for a poll: the \<^verbatim>\<open>catch\<close> literal for a failed poll (\<open>Inl\<close> the message),
  the regular literal otherwise.
\<close>

fun earnings_object :: "string + snapshot \<Rightarrow> nat \<Rightarrow> (string \<times> jsval) list" where
  "earnings_object (Inl msg) t =
     [(''total'', JNum 0), (''breakdown'', JObj []), (''error'', JStr msg)]"
| "earnings_object (Inr realEarnings) t =
     [(''total'', JNum (or_zero (Some (e_total realEarnings)))),
      (''breakdown'', JObj [(''amazon'', JNum (or_zero (Some (e_amazon realEarnings)))),
                            (''clickbank'', JNum (or_zero (Some (e_clickbank realEarnings)))),
                            (''ebay'', JNum (or_zero (Some (e_ebay realEarnings))))]),
      (''timestamp'', JNum (real t)),
      (''source'', JStr ''real-api'')]"

definition server_trackAffiliateEarnings ::
  "env \<Rightarrow> string \<Rightarrow> server \<Rightarrow> (string \<times> jsval) list \<times> server" where
  "server_trackAffiliateEarnings e userId s =
     (case map_of (users s) userId of
        None \<Rightarrow> ([(''total'', JNum 0), (''breakdown'', JObj [])], s)
      | Some u \<Rightarrow>
         (let (realEarnings, x1) = trackAffiliateEarnings e (outside s)
          in (earnings_object (Inr realEarnings) (now x1), s\<lparr>outside := x1\<rparr>)))"

text \<open>
  \<^verbatim>\<open>earnings.length > 0\<close> on such an object: the property is looked up by name, and
  \<^verbatim>\<open>undefined > 0\<close> is false, as is the comparison of a plain object with 0. A string
  would be compared through the runtime's conversion to a number, a parameter here.
\<close>

fun length_positive :: "(string \<Rightarrow> bool) \<Rightarrow> (string \<times> jsval) list \<Rightarrow> bool" where
  "length_positive str_gt0 obj =
     (case map_of obj ''length'' of
        None \<Rightarrow> False
      | Some (JNum n) \<Rightarrow> 0 < n
      | Some (JStr t) \<Rightarrow> str_gt0 t
      | Some (JObj ps) \<Rightarrow> False)"

datatype track_response = Tracked "(string \<times> jsval) list" | Track_failed string

text \<open>
  The guarded update both callers share. Were the guard true, \<^verbatim>\<open>earnings.forEach\<close>
  would be called on an object literal, which has no such method: a TypeError, thrown
  before any field of the user is touched.
\<close>

definition guarded_update ::
  "(string \<Rightarrow> bool) \<Rightarrow> (string \<times> jsval) list \<Rightarrow> server \<Rightarrow> error + server" where
  "guarded_update str_gt0 earnings s =
     (if length_positive str_gt0 earnings
      then Inl (TypeError ''earnings.forEach is not a function'')
      else Inr s)"

text \<open>\<^verbatim>\<open>app.post('/api/track-earnings')\<close>; its \<^verbatim>\<open>catch\<close> answers with a failure.\<close>

definition track_earnings ::
  "env \<Rightarrow> (string \<Rightarrow> bool) \<Rightarrow> string \<Rightarrow> server \<Rightarrow> track_response \<times> server" where
  "track_earnings e str_gt0 userId s =
     (let (earnings, s1) = server_trackAffiliateEarnings e userId s in
      case map_of (users s1) userId of
        None \<Rightarrow> (Tracked earnings, s1)
      | Some u \<Rightarrow>
         (case guarded_update str_gt0 earnings s1 of
            Inl err \<Rightarrow> (Track_failed (error_message err), s1)
          | Inr s2 \<Rightarrow> (Tracked earnings, s2)))"

text \<open>
  The background \<^verbatim>\<open>setInterval\<close> of 30 seconds: the same poll and guard for every user
  of the registry, in insertion order; its \<^verbatim>\<open>catch\<close> only logs.
\<close>

fun background_users :: "env \<Rightarrow> (string \<Rightarrow> bool) \<Rightarrow> string list \<Rightarrow> server \<Rightarrow> server" where
  "background_users e str_gt0 [] s = s"
| "background_users e str_gt0 (userId # rest) s =
     (let (earnings, s1) = server_trackAffiliateEarnings e userId s
      in background_users e str_gt0 rest
           (case guarded_update str_gt0 earnings s1 of Inl err \<Rightarrow> s1 | Inr s2 \<Rightarrow> s2))"

definition background_earnings :: "env \<Rightarrow> (string \<Rightarrow> bool) \<Rightarrow> server \<Rightarrow> server" where
  "background_earnings e str_gt0 s = background_users e str_gt0 (map fst (users s)) s"

subsection \<open>Histories\<close>

text \<open>
  What can happen to the server, one event at a time: a call of a \<^verbatim>\<open>BotManager\<close>
  method, an interval timer firing, a route served, a round of the background loop.
  Each runs to completion before the next, as on the single-threaded event loop when
  no two of them overlap.
\<close>

datatype op =
    Start string string "string list"
  | Stop string string
  | Fire nat
  | Manual string string string
  | Get_user string
  | Withdraw withdrawal_request
  | Track string
  | Background

fun apply_op :: "env \<Rightarrow> (string \<Rightarrow> bool) \<Rightarrow> server \<Rightarrow> op \<Rightarrow> server" where
  "apply_op e g s (Start userId pf kws) = snd (startBot userId pf kws s)"
| "apply_op e g s (Stop userId pf) = snd (stopBot userId pf s)"
| "apply_op e g s (Fire tid) = fire e tid s"
| "apply_op e g s (Manual userId pf keyword) = snd (runManualCycle e userId pf keyword s)"
| "apply_op e g s (Get_user userId) = snd (user_data userId s)"
| "apply_op e g s (Withdraw q) = snd (withdraw e q s)"
| "apply_op e g s (Track userId) = snd (track_earnings e g userId s)"
| "apply_op e g s Background = background_earnings e g s"

definition run_ops :: "env \<Rightarrow> (string \<Rightarrow> bool) \<Rightarrow> op list \<Rightarrow> server \<Rightarrow> server" where
  "run_ops e g ops s = foldl (apply_op e g) s ops"

text \<open>The starts of a history, as the keys they store their configuration under.\<close>

fun started_keys :: "op list \<Rightarrow> string list" where
  "started_keys [] = []"
| "started_keys (Start userId pf kws # ops) = bot_key userId pf # started_keys ops"
| "started_keys (other # ops) = started_keys ops"

section \<open>Concrete configurations\<close>

text \<open>
  A world at time 0 with no request made; an environment in which every third party
  rejects every request and nothing takes time; a configuration with no credentials
  (the affiliate tag has the server's default); two products; and the server right
  after start-up.
\<close>

definition w0 :: world where
  "w0 = \<lparr> now = 0, calls = [] \<rparr>"

definition offline :: env where
  "offline =
     \<lparr> latency = (\<lambda>t. 0), lag = (\<lambda>t. 0),
       twitter_ctor = True, facebook_ctor = True, instagram_ctor = True,
       amazon_search = (\<lambda>t k n. Inl ''offline''),
       twitter_upload = (\<lambda>t u. Inl ''offline''),
       twitter_tweet = (\<lambda>t a b. Inl ''offline''),
       facebook_graph = (\<lambda>t a b. Inl ''offline''),
       instagram_media = (\<lambda>t a. Inl ''offline''),
       instagram_publish = (\<lambda>t a. Inl ''offline''),
       pinterest_pin = (\<lambda>t a b. Inl ''offline''),
       ebay_oauth = (\<lambda>t. Inl ''offline''),
       ebay_performance = (\<lambda>t a. Inl ''offline''),
       amazon_earnings = (\<lambda>t. Inl ''offline''),
       clickbank_earnings = (\<lambda>t. Inl ''offline''),
       stripe_intent = (\<lambda>t a. Inl ''offline''),
       paypal_order = (\<lambda>t a. Inl ''offline''),
       paypal_capture = (\<lambda>t a. Inl ''offline'') \<rparr>"

definition no_credentials :: config where
  "no_credentials =
     \<lparr> amazon_access_key = None, amazon_affiliate_tag = Some ''your-tag-20'',
       twitter_consumer_key = None, twitter_consumer_secret = None,
       twitter_access_token = None, twitter_access_secret = None,
       facebook_access_token = None, facebook_page_id = None,
       instagram_access_token = None, instagram_user_id = None,
       pinterest_access_token = None, pinterest_board_id = None \<rparr>"

definition twitter_only :: config where
  "twitter_only = no_credentials\<lparr> twitter_consumer_key := Some ''key'',
                                   twitter_consumer_secret := Some ''secret'' \<rparr>"

definition earbuds :: product where
  "earbuds = \<lparr> ASIN = ''B0EARBUDS1'',
               ItemInfo = Some \<lparr> Title = ''Wireless Earbuds'', Features = None,
                                 Images = Some \<lparr> PrimaryImage = None \<rparr> \<rparr> \<rparr>"

definition charger :: product where
  "charger = \<lparr> ASIN = ''B0CHARGER2'',
               ItemInfo = Some \<lparr> Title = ''Earbuds Charger'', Features = None,
                                 Images = Some \<lparr> PrimaryImage = None \<rparr> \<rparr> \<rparr>"

text \<open>A product as the marketplace may return it with no \<^verbatim>\<open>ItemInfo\<close>.\<close>

definition bare :: product where
  "bare = \<lparr> ASIN = ''B0BARE0003'', ItemInfo = None \<rparr>"

text \<open>The marketplace answers every search with the two products, whatever the count asked.\<close>

definition two_products :: env where
  "two_products = offline\<lparr> amazon_search := (\<lambda>t k n. Inr (Some [earbuds, charger])) \<rparr>"

text \<open>Twitter accepts the tweet and answers with an empty identifier.\<close>

definition blank_id :: env where
  "blank_id = offline\<lparr> amazon_search := (\<lambda>t k n. Inr (Some [earbuds])),
                         twitter_tweet := (\<lambda>t a b. Inr (Some [])) \<rparr>"

text \<open>Amazon's earnings request fails, ClickBank reports 42, eBay's token request fails.\<close>

definition one_provider_up :: env where
  "one_provider_up = offline\<lparr> clickbank_earnings := (\<lambda>t. Inr (Some 42)) \<rparr>"

text \<open>
  Every provider answers: Amazon reports 10, ClickBank 42, and eBay hands out a token
  and reports three performance rows, of 5, of nothing and of 3.
\<close>

definition providers_up :: env where
  "providers_up = offline\<lparr> amazon_earnings := (\<lambda>t. Inr (Some 10)),
                             clickbank_earnings := (\<lambda>t. Inr (Some 42)),
                             ebay_oauth := (\<lambda>t. Inr (Some ''token'')),
                             ebay_performance := (\<lambda>t tok. Inr (Some [Some 5, None, Some 3])) \<rparr>"

text \<open>Stripe creates the payment intent and reports that it did not succeed.\<close>

definition declined :: env where
  "declined = offline\<lparr> stripe_intent := (\<lambda>t a. Inr (''requires_action'', ''pi_1'')) \<rparr>"

definition server0 :: server where
  "server0 =
     \<lparr> outside = w0, botEngine = RealBotEngine offline no_credentials, paypalClient = False,
       users = [], withdrawals = Map.empty, emitted = [],
       botIntervals = Map.empty, userConfigs = Map.empty, timers = [], next_timer = 0 \<rparr>"

text \<open>The server after \<^verbatim>\<open>/api/user-data\<close> created the user \<open>u1\<close>.\<close>

definition server1 :: server where
  "server1 = snd (user_data ''u1'' server0)"


text \<open>The server once \<open>u1\<close> has started a Twitter bot twice and then stopped it once.\<close>

definition started_twice_stopped :: server where
  "started_twice_stopped =
     snd (stopBot ''u1'' ''twitter''
            (snd (startBot ''u1'' ''twitter'' []
                    (snd (startBot ''u1'' ''twitter'' [] server1)))))"

section \<open>The cycle runner\<close>

subsection \<open>The clock never runs backwards\<close>

lemma now_request: "now (request e c x) = now x + latency e (now x)"
  by (simp add: request_def)

lemma now_sleep: "now (sleep e ms x) = now x + ms + lag e (now x)"
  by (simp add: sleep_def)

lemma now_tweet: "now x \<le> now (snd (tweet e title link x))"
  by (simp add: tweet_def now_request split: sum.splits)

lemma now_postToTwitter: "now x \<le> now (snd (postToTwitter e eng p link x))"
proof -
  have "now x \<le> now (snd (tweet e t link (request e c x)))" for t c
    using now_tweet [of "request e c x" e t link] by (simp add: now_request)
  then show ?thesis
    by (simp add: postToTwitter_def now_tweet now_request split: option.splits sum.splits)
qed

lemma now_postToFacebook: "now x \<le> now (snd (postToFacebook e eng p link x))"
  by (simp add: postToFacebook_def Let_def now_request split: option.splits sum.splits)

lemma now_postToInstagram: "now x \<le> now (snd (postToInstagram e eng p link x))"
  by (simp add: postToInstagram_def Let_def now_request split: option.splits sum.splits)

lemma now_postToTikTok: "now x \<le> now (snd (postToTikTok e eng p link x))"
  by (simp add: postToTikTok_def split: option.splits)

lemma now_postToPinterest: "now x \<le> now (snd (postToPinterest e eng p link x))"
  by (simp add: postToPinterest_def Let_def now_request split: option.splits sum.splits)

lemma now_postToEbay: "now x \<le> now (snd (postToEbay e eng p link x))"
  by (simp add: postToEbay_def split: option.splits)

lemma now_publish: "now x \<le> now (snd (publish e eng pf p link x))"
  by (simp add: publish_def now_postToTwitter now_postToFacebook now_postToInstagram
      now_postToTikTok now_postToPinterest now_postToEbay)

lemma publish_each_times:
  "now x \<le> now (snd (publish_each e eng p title link pfs x)) \<and>
   (\<forall>r\<in>set (fst (publish_each e eng p title link pfs x)).
      now x \<le> pr_timestamp r \<and> pr_timestamp r \<le> now (snd (publish_each e eng p title link pfs x)))"
proof (induction pfs arbitrary: x)
  case Nil
  then show ?case by simp
next
  case (Cons pf pfs)
  obtain r x1 where pub: "publish e eng pf p link x = (r, x1)"
    by (cases "publish e eng pf p link x")
  obtain rest x2 where rec: "publish_each e eng p title link pfs x1 = (rest, x2)"
    by (cases "publish_each e eng p title link pfs x1")
  have le1: "now x \<le> now x1"
    using now_publish [of x e eng pf p link] pub by simp
  have ih: "now x1 \<le> now x2 \<and> (\<forall>r\<in>set rest. now x1 \<le> pr_timestamp r \<and> pr_timestamp r \<le> now x2)"
    using Cons.IH [of x1] rec by simp
  show ?case
    using pub rec le1 ih by (auto simp: Let_def)
qed

lemma publish_each_platforms:
  "set (map pr_platform (fst (publish_each e eng p title link pfs x))) \<subseteq> set pfs \<and>
   (distinct pfs \<longrightarrow> distinct (map pr_platform (fst (publish_each e eng p title link pfs x))))"
proof (induction pfs arbitrary: x)
  case Nil
  then show ?case by simp
next
  case (Cons pf pfs)
  obtain r x1 where pub: "publish e eng pf p link x = (r, x1)"
    by (cases "publish e eng pf p link x")
  obtain rest x2 where rec: "publish_each e eng p title link pfs x1 = (rest, x2)"
    by (cases "publish_each e eng p title link pfs x1")
  have ih: "set (map pr_platform rest) \<subseteq> set pfs \<and> (distinct pfs \<longrightarrow> distinct (map pr_platform rest))"
    using Cons.IH [of x1] rec by simp
  show ?case
    using pub rec ih by (auto simp: Let_def)
qed

lemma process_products_times:
  "now x \<le> now (snd (process_products e eng pfs ps x)) \<and>
   (\<forall>r\<in>set (fst (process_products e eng pfs ps x)). now x \<le> pr_timestamp r)"
proof (induction ps arbitrary: x)
  case Nil
  then show ?case by simp
next
  case (Cons p ps)
  show ?case
  proof (cases "ItemInfo p")
    case None
    then show ?thesis using Cons.IH [of x] by simp
  next
    case (Some info)
    let ?link = "generateAffiliateLinks eng p"
    obtain rs x1 where pe: "publish_each e eng p (Title info) ?link pfs x = (rs, x1)"
      by (cases "publish_each e eng p (Title info) ?link pfs x")
    obtain rest x3 where rec: "process_products e eng pfs ps (sleep e 2000 x1) = (rest, x3)"
      by (cases "process_products e eng pfs ps (sleep e 2000 x1)")
    have t1: "now x \<le> now x1 \<and> (\<forall>r\<in>set rs. now x \<le> pr_timestamp r \<and> pr_timestamp r \<le> now x1)"
      using publish_each_times [of x e eng p "Title info" ?link pfs] pe by simp
    have t2: "now (sleep e 2000 x1) \<le> now x3 \<and> (\<forall>r\<in>set rest. now (sleep e 2000 x1) \<le> pr_timestamp r)"
      using Cons.IH [of "sleep e 2000 x1"] rec by simp
    show ?thesis
      using Some pe rec t1 t2 by (auto simp: Let_def now_sleep)
  qed
qed

lemma process_products_distinct:
  "distinct pfs \<Longrightarrow>
   distinct (map (\<lambda>r. (pr_platform r, pr_timestamp r)) (fst (process_products e eng pfs ps x)))"
proof (induction ps arbitrary: x)
  case Nil
  then show ?case by simp
next
  case (Cons p ps)
  show ?case
  proof (cases "ItemInfo p")
    case None
    then show ?thesis using Cons.IH [of x] Cons.prems by simp
  next
    case (Some info)
    let ?link = "generateAffiliateLinks eng p"
    obtain rs x1 where pe: "publish_each e eng p (Title info) ?link pfs x = (rs, x1)"
      by (cases "publish_each e eng p (Title info) ?link pfs x")
    obtain rest x3 where rec: "process_products e eng pfs ps (sleep e 2000 x1) = (rest, x3)"
      by (cases "process_products e eng pfs ps (sleep e 2000 x1)")
    have t1: "\<forall>r\<in>set rs. pr_timestamp r \<le> now x1"
      using publish_each_times [of x e eng p "Title info" ?link pfs] pe by simp
    have t2: "\<forall>r\<in>set rest. now x1 + 2000 \<le> pr_timestamp r"
      using process_products_times [of "sleep e 2000 x1" e eng pfs ps] rec
      by (auto simp: now_sleep)
    have d1: "distinct (map pr_platform rs)"
      using publish_each_platforms [of e eng p "Title info" ?link pfs x] pe Cons.prems by simp
    have d1': "distinct (map (\<lambda>r. (pr_platform r, pr_timestamp r)) rs)"
      using d1 by (simp add: distinct_map inj_on_def)
    have d2: "distinct (map (\<lambda>r. (pr_platform r, pr_timestamp r)) rest)"
      using Cons.IH [of "sleep e 2000 x1"] rec Cons.prems by simp
    have disj: "(\<lambda>r. (pr_platform r, pr_timestamp r)) ` set rs \<inter> (\<lambda>r. (pr_platform r, pr_timestamp r)) ` set rest = {}"
      using t1 t2 by fastforce
    show ?thesis
      using Some pe rec d1' d2 disj by (simp add: Let_def)
  qed
qed

subsection \<open>Which results a cycle records\<close>

lemma publish_each_exact:
  assumes "\<forall>pf\<in>set pfs. \<forall>y. truthy_id (fst (publish e eng pf p link y)) = ok pf"
  shows "map (\<lambda>r. (pr_product r, pr_affiliateLink r, pr_platform r))
           (fst (publish_each e eng p title link pfs x))
         = map (\<lambda>pf. (title, link, pf)) (filter ok pfs)"
  using assms
proof (induction pfs arbitrary: x)
  case Nil
  then show ?case by simp
next
  case (Cons pf pfs)
  obtain r x1 where pub: "publish e eng pf p link x = (r, x1)"
    by (cases "publish e eng pf p link x")
  obtain rest x2 where rec: "publish_each e eng p title link pfs x1 = (rest, x2)"
    by (cases "publish_each e eng p title link pfs x1")
  have ok: "truthy_id r = ok pf"
    using Cons.prems pub by (metis fst_conv list.set_intros(1))
  have ih: "map (\<lambda>r. (pr_product r, pr_affiliateLink r, pr_platform r)) rest
            = map (\<lambda>pf. (title, link, pf)) (filter ok pfs)"
    using Cons.IH [of x1] Cons.prems rec by simp
  show ?case
    using pub rec ok ih by (simp add: Let_def)
qed

lemma process_products_exact:
  assumes "\<forall>p\<in>set ps. \<forall>pf\<in>set pfs. \<forall>y.
             truthy_id (fst (publish e eng pf p (generateAffiliateLinks eng p) y)) = ok p pf"
  shows "map (\<lambda>r. (pr_product r, pr_affiliateLink r, pr_platform r))
           (fst (process_products e eng pfs ps x))
         = expected_pairs eng ok pfs ps"
  using assms
proof (induction ps arbitrary: x)
  case Nil
  then show ?case by (simp add: expected_pairs_def)
next
  case (Cons p ps)
  have tail: "expected_pairs eng ok pfs (p # ps) =
     (case ItemInfo p of None \<Rightarrow> []
      | Some info \<Rightarrow> map (\<lambda>pf. (Title info, generateAffiliateLinks eng p, pf)) (filter (ok p) pfs))
     @ expected_pairs eng ok pfs ps"
    by (simp add: expected_pairs_def)
  show ?case
  proof (cases "ItemInfo p")
    case None
    then show ?thesis using Cons.IH [of x] Cons.prems tail by simp
  next
    case (Some info)
    let ?link = "generateAffiliateLinks eng p"
    obtain rs x1 where pe: "publish_each e eng p (Title info) ?link pfs x = (rs, x1)"
      by (cases "publish_each e eng p (Title info) ?link pfs x")
    obtain rest x3 where rec: "process_products e eng pfs ps (sleep e 2000 x1) = (rest, x3)"
      by (cases "process_products e eng pfs ps (sleep e 2000 x1)")
    have h1: "map (\<lambda>r. (pr_product r, pr_affiliateLink r, pr_platform r)) rs
              = map (\<lambda>pf. (Title info, ?link, pf)) (filter (ok p) pfs)"
      using publish_each_exact [of pfs e eng p ?link "ok p" "Title info" x] Cons.prems pe by simp
    have h2: "map (\<lambda>r. (pr_product r, pr_affiliateLink r, pr_platform r)) rest
              = expected_pairs eng ok pfs ps"
      using Cons.IH [of "sleep e 2000 x1"] Cons.prems rec by simp
    show ?thesis
      using Some pe rec h1 h2 tail by (simp add: Let_def)
  qed
qed

lemma publish_each_length: "length (fst (publish_each e eng p title link pfs x)) \<le> length pfs"
proof (induction pfs arbitrary: x)
  case Nil
  then show ?case by simp
next
  case (Cons pf pfs)
  obtain r x1 where pub: "publish e eng pf p link x = (r, x1)"
    by (cases "publish e eng pf p link x")
  obtain rest x2 where rec: "publish_each e eng p title link pfs x1 = (rest, x2)"
    by (cases "publish_each e eng p title link pfs x1")
  show ?case using Cons.IH [of x1] pub rec by (simp add: Let_def)
qed

lemma process_products_length:
  "length (fst (process_products e eng pfs ps x)) \<le> length ps * length pfs"
proof (induction ps arbitrary: x)
  case Nil
  then show ?case by simp
next
  case (Cons p ps)
  show ?case
  proof (cases "ItemInfo p")
    case None
    then show ?thesis using Cons.IH [of x] by (simp add: le_SucI trans_le_add2)
  next
    case (Some info)
    let ?link = "generateAffiliateLinks eng p"
    obtain rs x1 where pe: "publish_each e eng p (Title info) ?link pfs x = (rs, x1)"
      by (cases "publish_each e eng p (Title info) ?link pfs x")
    obtain rest x3 where rec: "process_products e eng pfs ps (sleep e 2000 x1) = (rest, x3)"
      by (cases "process_products e eng pfs ps (sleep e 2000 x1)")
    have "length rs \<le> length pfs"
      using publish_each_length [of e eng p "Title info" ?link pfs x] pe by simp
    moreover have "length rest \<le> length ps * length pfs"
      using Cons.IH [of "sleep e 2000 x1"] rec by simp
    ultimately show ?thesis
      using Some pe rec by (simp add: Let_def)
  qed
qed

lemma calls_each_world:
  "snd (calls_each e eng p link pfs x) = snd (publish_each e eng p title link pfs x)"
proof (induction pfs arbitrary: x)
  case Nil
  then show ?case by simp
next
  case (Cons pf pfs)
  obtain r x1 where pub: "publish e eng pf p link x = (r, x1)"
    by (cases "publish e eng pf p link x")
  obtain cs x2 where c: "calls_each e eng p link pfs x1 = (cs, x2)"
    by (cases "calls_each e eng p link pfs x1")
  obtain rs y2 where pe: "publish_each e eng p title link pfs x1 = (rs, y2)"
    by (cases "publish_each e eng p title link pfs x1")
  show ?case
    using pub c pe Cons.IH [of x1] by (simp add: Let_def)
qed

lemma calls_each_pairs:
  "map (\<lambda>c. (fst c, fst (snd c))) (fst (calls_each e eng p link pfs x)) = map (Pair p) pfs"
proof (induction pfs arbitrary: x)
  case Nil
  then show ?case by simp
next
  case (Cons pf pfs)
  obtain r x1 where pub: "publish e eng pf p link x = (r, x1)"
    by (cases "publish e eng pf p link x")
  obtain cs x2 where c: "calls_each e eng p link pfs x1 = (cs, x2)"
    by (cases "calls_each e eng p link pfs x1")
  show ?case
    using pub c Cons.IH [of x1] by (simp add: Let_def)
qed

lemma publish_each_recorded:
  "ItemInfo p = Some info \<Longrightarrow>
   fst (publish_each e eng p (Title info) (generateAffiliateLinks eng p) pfs x)
     = map (recorded eng)
         (filter (\<lambda>c. truthy_id (fst (snd (snd c))))
            (fst (calls_each e eng p (generateAffiliateLinks eng p) pfs x)))"
proof (induction pfs arbitrary: x)
  case Nil
  then show ?case by simp
next
  case (Cons pf pfs)
  let ?link = "generateAffiliateLinks eng p"
  obtain r x1 where pub: "publish e eng pf p ?link x = (r, x1)"
    by (cases "publish e eng pf p ?link x")
  obtain cs x2 where c: "calls_each e eng p ?link pfs x1 = (cs, x2)"
    by (cases "calls_each e eng p ?link pfs x1")
  obtain rs y2 where pe: "publish_each e eng p (Title info) ?link pfs x1 = (rs, y2)"
    by (cases "publish_each e eng p (Title info) ?link pfs x1")
  show ?case
    using pub c pe Cons.IH [OF Cons.prems, of x1] Cons.prems
    by (simp add: Let_def)
qed

lemma publisher_calls_pairs:
  "map (\<lambda>c. (fst c, fst (snd c))) (publisher_calls e eng pfs ps x)
     = concat (map (\<lambda>p. map (Pair p) pfs) (filter (\<lambda>p. ItemInfo p \<noteq> None) ps))"
proof (induction ps arbitrary: x)
  case Nil
  then show ?case by simp
next
  case (Cons p ps)
  show ?case
  proof (cases "ItemInfo p")
    case None
    then show ?thesis using Cons.IH [of x] by simp
  next
    case (Some info)
    let ?link = "generateAffiliateLinks eng p"
    obtain cs x1 where c: "calls_each e eng p ?link pfs x = (cs, x1)"
      by (cases "calls_each e eng p ?link pfs x")
    have "map (\<lambda>c. (fst c, fst (snd c))) cs = map (Pair p) pfs"
      using calls_each_pairs [of e eng p ?link pfs x] c by simp
    then show ?thesis
      using Some c Cons.IH [of "sleep e 2000 x1"] by simp
  qed
qed

lemma process_products_recorded:
  "fst (process_products e eng pfs ps x)
     = map (recorded eng)
         (filter (\<lambda>c. truthy_id (fst (snd (snd c)))) (publisher_calls e eng pfs ps x))"
proof (induction ps arbitrary: x)
  case Nil
  then show ?case by simp
next
  case (Cons p ps)
  show ?case
  proof (cases "ItemInfo p")
    case None
    then show ?thesis using Cons.IH [of x] by simp
  next
    case (Some info)
    let ?link = "generateAffiliateLinks eng p"
    obtain cs x1 where c: "calls_each e eng p ?link pfs x = (cs, x1)"
      by (cases "calls_each e eng p ?link pfs x")
    obtain rs y1 where pe: "publish_each e eng p (Title info) ?link pfs x = (rs, y1)"
      by (cases "publish_each e eng p (Title info) ?link pfs x")
    obtain rest x3 where rec: "process_products e eng pfs ps (sleep e 2000 x1) = (rest, x3)"
      by (cases "process_products e eng pfs ps (sleep e 2000 x1)")
    have w: "y1 = x1"
      using calls_each_world [of e eng p ?link pfs x "Title info"] c pe by simp
    have r: "rs = map (recorded eng) (filter (\<lambda>c. truthy_id (fst (snd (snd c)))) cs)"
      using publish_each_recorded [OF Some, of e eng pfs x] c pe by simp
    have ih: "rest = map (recorded eng)
         (filter (\<lambda>c. truthy_id (fst (snd (snd c)))) (publisher_calls e eng pfs ps (sleep e 2000 x1)))"
      using Cons.IH [of "sleep e 2000 x1"] rec by simp
    show ?thesis
      using Some c pe rec w r ih by (simp add: Let_def)
  qed
qed

lemma distinct_map_coarser: "distinct (map (\<lambda>x. g (h x)) xs) \<Longrightarrow> distinct (map h xs)"
  by (induction xs) auto

lemma runBotCycle_four:
  assumes fetch: "fst (fetchAmazonProducts e eng keyword 5 x) = [a, b]"
    and pf: "pA \<noteq> pB"
    and ok: "\<forall>p\<in>{a, b}. \<forall>pf\<in>{pA, pB}. \<forall>y.
               truthy_id (fst (publish e eng pf p (generateAffiliateLinks eng p) y))"
    and info: "ItemInfo a \<noteq> None" "ItemInfo b \<noteq> None"
  shows "length (fst (runBotCycle e eng keyword [pA, pB] x)) = 4 \<and>
         distinct (map (\<lambda>r. (pr_platform r, pr_product r, pr_timestamp r))
                    (fst (runBotCycle e eng keyword [pA, pB] x)))"
proof -
  obtain x1 where f: "fetchAmazonProducts e eng keyword 5 x = ([a, b], x1)"
    using fetch by (cases "fetchAmazonProducts e eng keyword 5 x") simp
  obtain ia ib where ia: "ItemInfo a = Some ia" and ib: "ItemInfo b = Some ib"
    using info by auto
  let ?rs = "fst (process_products e eng [pA, pB] [a, b] x1)"
  have run: "fst (runBotCycle e eng keyword [pA, pB] x) = ?rs"
    using f by (simp add: runBotCycle_def)
  have ok': "\<forall>p\<in>set [a, b]. \<forall>pf\<in>set [pA, pB]. \<forall>y.
      truthy_id (fst (publish e eng pf p (generateAffiliateLinks eng p) y)) = (\<lambda>p pf. True) p pf"
    using ok by simp
  have "map (\<lambda>r. (pr_product r, pr_affiliateLink r, pr_platform r)) ?rs
        = expected_pairs eng (\<lambda>p pf. True) [pA, pB] [a, b]"
    by (rule process_products_exact [OF ok'])
  then have "length (map (\<lambda>r. (pr_product r, pr_affiliateLink r, pr_platform r)) ?rs) = 4"
    by (simp add: expected_pairs_def ia ib)
  then have len: "length ?rs = 4" by simp
  have "distinct (map (\<lambda>r. (pr_platform r, pr_timestamp r)) ?rs)"
    using process_products_distinct [of "[pA, pB]" e eng "[a, b]" x1] pf by simp
  then have "distinct (map (\<lambda>r. (\<lambda>k. (fst k, snd (snd k))) (pr_platform r, pr_product r, pr_timestamp r)) ?rs)"
    by simp
  then have "distinct (map (\<lambda>r. (pr_platform r, pr_product r, pr_timestamp r)) ?rs)"
    by (rule distinct_map_coarser)
  with len run show ?thesis by simp
qed

text \<open>
  Claim C3, as the code has it. A cycle calls the publisher once for each pair of a
  fetched product (one with \<^verbatim>\<open>ItemInfo\<close>) and a requested platform, products in fetch
  order and platforms in the caller's order, and its results are the records of exactly
  those calls that returned a truthy identifier, in the order of the calls. The test is
  \<^verbatim>\<open>if (postId)\<close>: an identifier that is not null but is the empty string is not
  recorded. When the success of publishing a product on a platform does not depend on
  the moment (\<open>ok\<close>), the recorded entries are \<open>expected_pairs\<close>. There are never
  more results than pairs, and with distinct platforms no two results share platform
  and timestamp, since two seconds pass between products. When the marketplace returns
  two products and publishing always succeeds on two distinct platforms, the cycle
  returns exactly four results, pairwise distinct in platform, product and timestamp.
  With no platform requested the result is the empty list, a value like any other.
\<close>

theorem runBotCycle_records:
  "fst (runBotCycle e eng keyword pfs x)
     = map (recorded eng)
         (filter (\<lambda>c. truthy_id (fst (snd (snd c))))
            (publisher_calls e eng pfs (fst (fetchAmazonProducts e eng keyword 5 x))
               (snd (fetchAmazonProducts e eng keyword 5 x))))
   \<and> map (\<lambda>c. (fst c, fst (snd c)))
         (publisher_calls e eng pfs (fst (fetchAmazonProducts e eng keyword 5 x))
            (snd (fetchAmazonProducts e eng keyword 5 x)))
     = concat (map (\<lambda>p. map (Pair p) pfs)
                 (filter (\<lambda>p. ItemInfo p \<noteq> None) (fst (fetchAmazonProducts e eng keyword 5 x))))
   \<and> ((\<forall>p\<in>set (fst (fetchAmazonProducts e eng keyword 5 x)). \<forall>pf\<in>set pfs. \<forall>y.
        truthy_id (fst (publish e eng pf p (generateAffiliateLinks eng p) y)) = ok p pf)
     \<longrightarrow> map (\<lambda>r. (pr_product r, pr_affiliateLink r, pr_platform r))
           (fst (runBotCycle e eng keyword pfs x))
         = expected_pairs eng ok pfs (fst (fetchAmazonProducts e eng keyword 5 x)))
   \<and> length (fst (runBotCycle e eng keyword pfs x))
       \<le> length (fst (fetchAmazonProducts e eng keyword 5 x)) * length pfs
   \<and> (distinct pfs \<longrightarrow>
        distinct (map (\<lambda>r. (pr_platform r, pr_timestamp r)) (fst (runBotCycle e eng keyword pfs x))))
   \<and> (fst (fetchAmazonProducts e eng keyword 5 x) = [a, b] \<and> ItemInfo a \<noteq> None \<and> ItemInfo b \<noteq> None
        \<and> pA \<noteq> pB
        \<and> (\<forall>p\<in>{a, b}. \<forall>pf\<in>{pA, pB}. \<forall>y.
              truthy_id (fst (publish e eng pf p (generateAffiliateLinks eng p) y)))
      \<longrightarrow> length (fst (runBotCycle e eng keyword [pA, pB] x)) = 4
          \<and> distinct (map (\<lambda>r. (pr_platform r, pr_product r, pr_timestamp r))
                        (fst (runBotCycle e eng keyword [pA, pB] x))))
   \<and> fst (runBotCycle e eng keyword [] x) = []"
proof -
  obtain ps x1 where f: "fetchAmazonProducts e eng keyword 5 x = (ps, x1)"
    by (cases "fetchAmazonProducts e eng keyword 5 x")
  have run: "fst (runBotCycle e eng keyword qs x) = fst (process_products e eng qs ps x1)" for qs
    using f by (simp add: runBotCycle_def)
  have exact: "(\<forall>p\<in>set ps. \<forall>pf\<in>set pfs. \<forall>y.
        truthy_id (fst (publish e eng pf p (generateAffiliateLinks eng p) y)) = ok p pf)
     \<longrightarrow> map (\<lambda>r. (pr_product r, pr_affiliateLink r, pr_platform r))
           (fst (process_products e eng pfs ps x1)) = expected_pairs eng ok pfs ps"
    using process_products_exact [of ps pfs e eng ok x1] by blast
  have bound: "length (fst (process_products e eng pfs ps x1)) \<le> length ps * length pfs"
    by (rule process_products_length)
  have dist: "distinct pfs \<longrightarrow>
      distinct (map (\<lambda>r. (pr_platform r, pr_timestamp r)) (fst (process_products e eng pfs ps x1)))"
    using process_products_distinct [of pfs e eng ps x1] by blast
  have four: "fst (fetchAmazonProducts e eng keyword 5 x) = [a, b] \<and> ItemInfo a \<noteq> None \<and> ItemInfo b \<noteq> None
        \<and> pA \<noteq> pB
        \<and> (\<forall>p\<in>{a, b}. \<forall>pf\<in>{pA, pB}. \<forall>y.
              truthy_id (fst (publish e eng pf p (generateAffiliateLinks eng p) y)))
      \<longrightarrow> length (fst (runBotCycle e eng keyword [pA, pB] x)) = 4
          \<and> distinct (map (\<lambda>r. (pr_platform r, pr_product r, pr_timestamp r))
                        (fst (runBotCycle e eng keyword [pA, pB] x)))"
    using runBotCycle_four [of e eng keyword x a b pA pB] by blast
  have none: "fst (process_products e eng [] qs y) = []" for qs y
    by (induction qs arbitrary: y) (auto simp: Let_def split: option.splits prod.splits)
  have made: "fst (process_products e eng pfs ps x1)
     = map (recorded eng)
         (filter (\<lambda>c. truthy_id (fst (snd (snd c)))) (publisher_calls e eng pfs ps x1))"
    by (rule process_products_recorded)
  have pairs: "map (\<lambda>c. (fst c, fst (snd c))) (publisher_calls e eng pfs ps x1)
     = concat (map (\<lambda>p. map (Pair p) pfs) (filter (\<lambda>p. ItemInfo p \<noteq> None) ps))"
    by (rule publisher_calls_pairs)
  show ?thesis
    using exact bound dist four none [of ps x1] made pairs by (simp add: run f)
qed

text \<open>
  The two products of the marketplace on the two placeholder platforms: four results,
  in product order then platform order.
\<close>

theorem runBotCycle_records_witness:
  "map (\<lambda>r. (pr_product r, pr_platform r))
     (fst (runBotCycle two_products (RealBotEngine two_products no_credentials)
             ''wireless earbuds'' [''tiktok'', ''ebay''] w0))
     = [(''Wireless Earbuds'', ''tiktok''), (''Wireless Earbuds'', ''ebay''),
        (''Earbuds Charger'', ''tiktok''), (''Earbuds Charger'', ''ebay'')]
   \<and> length (fst (runBotCycle two_products (RealBotEngine two_products no_credentials)
                   ''wireless earbuds'' [''tiktok'', ''ebay''] w0)) = 4
   \<and> distinct (map (\<lambda>r. (pr_platform r, pr_product r, pr_timestamp r))
                 (fst (runBotCycle two_products (RealBotEngine two_products no_credentials)
                         ''wireless earbuds'' [''tiktok'', ''ebay''] w0)))
   \<and> fst (runBotCycle two_products (RealBotEngine two_products no_credentials)
            ''wireless earbuds'' [] w0) = []"
proof -
  let ?eng = "RealBotEngine two_products no_credentials"
  let ?rs = "fst (runBotCycle two_products ?eng ''wireless earbuds'' [''tiktok'', ''ebay''] w0)"
  have f: "fst (fetchAmazonProducts two_products ?eng ''wireless earbuds'' 5 w0) = [earbuds, charger]"
    by (simp add: fetchAmazonProducts_def two_products_def offline_def)
  have ok: "\<forall>p\<in>{earbuds, charger}. \<forall>pf\<in>{''tiktok'', ''ebay''}. \<forall>y.
      truthy_id (fst (publish two_products ?eng pf p (generateAffiliateLinks ?eng p) y))"
    by (simp add: publish_def postToTikTok_def postToEbay_def earbuds_def charger_def)
  have info: "ItemInfo earbuds \<noteq> None" "ItemInfo charger \<noteq> None"
    by (simp_all add: earbuds_def charger_def)
  note th = runBotCycle_records [where e = two_products and eng = ?eng
      and keyword = "''wireless earbuds''" and x = w0 and pfs = "[''tiktok'', ''ebay'']"
      and ok = "\<lambda>p pf. True" and a = earbuds and b = charger
      and pA = "''tiktok''" and pB = "''ebay''", THEN conjunct2, THEN conjunct2]
  have keys: "map (\<lambda>r. (pr_product r, pr_affiliateLink r, pr_platform r)) ?rs
      = expected_pairs ?eng (\<lambda>p pf. True) [''tiktok'', ''ebay''] [earbuds, charger]"
    using th f ok by simp
  have "map ((\<lambda>k. (fst k, snd (snd k))) \<circ> (\<lambda>r. (pr_product r, pr_affiliateLink r, pr_platform r))) ?rs
      = map (\<lambda>k. (fst k, snd (snd k))) (expected_pairs ?eng (\<lambda>p pf. True) [''tiktok'', ''ebay''] [earbuds, charger])"
    using keys by (simp only: map_map [symmetric])
  then have k2: "map (\<lambda>r. (pr_product r, pr_platform r)) ?rs
      = [(''Wireless Earbuds'', ''tiktok''), (''Wireless Earbuds'', ''ebay''),
         (''Earbuds Charger'', ''tiktok''), (''Earbuds Charger'', ''ebay'')]"
    by (simp add: comp_def expected_pairs_def earbuds_def charger_def)
  have four: "length ?rs = 4 \<and> distinct (map (\<lambda>r. (pr_platform r, pr_product r, pr_timestamp r)) ?rs)"
    using th f ok info by simp
  have none: "fst (runBotCycle two_products ?eng ''wireless earbuds'' [] w0) = []"
    using th by simp
  show ?thesis using k2 four none by simp
qed

text \<open>
  The claim speaks of publishers that returned non-null. Twitter answering a tweet
  with an empty identifier makes \<^verbatim>\<open>postToTwitter\<close> return it, a value that is not
  null, and the cycle records nothing for that pair.
\<close>

theorem runBotCycle_blank_id_counterexample:
  "fst (publish blank_id (RealBotEngine blank_id twitter_only) ''twitter'' earbuds
          (generateAffiliateLinks (RealBotEngine blank_id twitter_only) earbuds)
          (snd (fetchAmazonProducts blank_id (RealBotEngine blank_id twitter_only)
                  ''wireless earbuds'' 5 w0)))
     = Some (Remote [])
   \<and> fst (fetchAmazonProducts blank_id (RealBotEngine blank_id twitter_only)
            ''wireless earbuds'' 5 w0) = [earbuds]
   \<and> fst (runBotCycle blank_id (RealBotEngine blank_id twitter_only)
            ''wireless earbuds'' [''twitter''] w0) = []"
  by (simp add: publish_def postToTwitter_def tweet_def remote_def runBotCycle_def
      fetchAmazonProducts_def request_def RealBotEngine_def initializeClients_def
      blank_id_def offline_def twitter_only_def no_credentials_def earbuds_def w0_def)

section \<open>The product source and the publishers\<close>

text \<open>
  Claim C7, as the code has it. \<^verbatim>\<open>fetchAmazonProducts\<close> sends the count to the
  marketplace as \<^verbatim>\<open>ItemCount\<close> and returns the items of the reply as they are: the
  list has at most \<open>n\<close> items whenever the reply has, and nothing in the function cuts
  a longer reply. When the request is rejected, or the reply carries no item list, the
  result is the empty list; the function returns a list in every case, so nothing is
  raised to the caller.
\<close>

theorem fetchAmazonProducts_reply:
  "((\<forall>items. amazon_search e (now x) keyword n = Inr (Some items) \<longrightarrow> length items \<le> n)
      \<longrightarrow> length (fst (fetchAmazonProducts e eng keyword n x)) \<le> n)
   \<and> ((\<exists>msg. amazon_search e (now x) keyword n = Inl msg) \<or> amazon_search e (now x) keyword n = Inr None
      \<longrightarrow> fetchAmazonProducts e eng keyword n x = ([], request e (AmazonSearch keyword n) x))
   \<and> (\<forall>items. amazon_search e (now x) keyword n = Inr (Some items)
      \<longrightarrow> fetchAmazonProducts e eng keyword n x = (items, request e (AmazonSearch keyword n) x))"
  by (auto simp: fetchAmazonProducts_def Let_def split: sum.splits option.splits)

text \<open>A reply of two items for a count of five, and a marketplace that cannot be reached.\<close>

theorem fetchAmazonProducts_reply_witness:
  "length (fst (fetchAmazonProducts two_products (RealBotEngine two_products no_credentials)
                  ''wireless earbuds'' 5 w0)) \<le> 5
   \<and> fetchAmazonProducts two_products (RealBotEngine two_products no_credentials)
        ''wireless earbuds'' 5 w0
       = ([earbuds, charger], request two_products (AmazonSearch ''wireless earbuds'' 5) w0)
   \<and> fetchAmazonProducts offline (RealBotEngine offline no_credentials) ''wireless earbuds'' 5 w0
       = ([], request offline (AmazonSearch ''wireless earbuds'' 5) w0)"
proof -
  have up: "amazon_search two_products (now w0) ''wireless earbuds'' 5 = Inr (Some [earbuds, charger])"
    by (simp add: two_products_def offline_def)
  have down: "amazon_search offline (now w0) ''wireless earbuds'' 5 = Inl ''offline''"
    by (simp add: offline_def)
  show ?thesis
    using fetchAmazonProducts_reply [where e = two_products and x = w0 and n = 5
        and keyword = "''wireless earbuds''" and eng = "RealBotEngine two_products no_credentials"]
      fetchAmazonProducts_reply [where e = offline and x = w0 and n = 5
        and keyword = "''wireless earbuds''" and eng = "RealBotEngine offline no_credentials"]
      up down
    by simp
qed

text \<open>
  The bound of the claim fails when the marketplace answers a request for one item
  with two.
\<close>

theorem fetchAmazonProducts_bound_counterexample:
  "\<not> length (fst (fetchAmazonProducts two_products (RealBotEngine two_products no_credentials)
                    ''wireless earbuds'' 1 w0)) \<le> 1"
  by (simp add: fetchAmazonProducts_def two_products_def offline_def)

text \<open>
  Claim C2, as the code has it. Three publishers are guarded: Twitter returns
  \<^verbatim>\<open>null\<close> when the consumer key or secret is missing, Facebook when the access
  token or the page id is, Instagram when the access token or the user id is; each
  does so with the world unchanged, that is without a request and without time
  passing. The Twitter guard does not read the access token: with the consumer key and
  secret present and the constructor returning, the client exists whatever the access
  token. The TikTok and eBay publishers are placeholders with no guard, on any engine:
  for a product with \<^verbatim>\<open>ItemInfo\<close> they return an identifier made from the clock,
  for a product without it they return \<^verbatim>\<open>null\<close> (logging the title throws inside
  the \<^verbatim>\<open>try\<close>), and in both cases they make no request.
\<close>

theorem publishers_without_credentials:
  "(\<not> (truthy (twitter_consumer_key c) \<and> truthy (twitter_consumer_secret c))
      \<longrightarrow> postToTwitter e (RealBotEngine e c) p link x = (None, x))
   \<and> (\<not> (truthy (facebook_access_token c) \<and> truthy (facebook_page_id c))
      \<longrightarrow> postToFacebook e (RealBotEngine e c) p link x = (None, x))
   \<and> (\<not> (truthy (instagram_access_token c) \<and> truthy (instagram_user_id c))
      \<longrightarrow> postToInstagram e (RealBotEngine e c) p link x = (None, x))
   \<and> (ItemInfo p \<noteq> None
      \<longrightarrow> postToTikTok e (RealBotEngine e c) p link x = (Some (Local ''tiktok_'' (now x)), x)
        \<and> postToEbay e (RealBotEngine e c) p link x = (Some (Local ''ebay_'' (now x)), x))
   \<and> (ItemInfo p \<noteq> None
      \<longrightarrow> postToTikTok e eng p link x = (Some (Local ''tiktok_'' (now x)), x)
        \<and> postToEbay e eng p link x = (Some (Local ''ebay_'' (now x)), x))
   \<and> (ItemInfo p = None
      \<longrightarrow> postToTikTok e eng p link x = (None, x) \<and> postToEbay e eng p link x = (None, x))
   \<and> (truthy (twitter_consumer_key c) \<and> truthy (twitter_consumer_secret c) \<and> twitter_ctor e
      \<longrightarrow> twitter (RealBotEngine e c))"
  by (auto simp: postToTwitter_def postToFacebook_def postToInstagram_def postToTikTok_def
      postToEbay_def RealBotEngine_def initializeClients_def)

text \<open>
  The five publishers on an engine built without any credential, the two placeholders
  on a product without \<^verbatim>\<open>ItemInfo\<close>, and the Twitter client of an engine that has the
  consumer key and secret but no access token.
\<close>

theorem publishers_without_credentials_witness:
  "postToTwitter offline (RealBotEngine offline no_credentials) earbuds ''link'' w0 = (None, w0)
   \<and> postToFacebook offline (RealBotEngine offline no_credentials) earbuds ''link'' w0 = (None, w0)
   \<and> postToInstagram offline (RealBotEngine offline no_credentials) earbuds ''link'' w0 = (None, w0)
   \<and> postToTikTok offline (RealBotEngine offline no_credentials) earbuds ''link'' w0
       = (Some (Local ''tiktok_'' 0), w0)
   \<and> postToEbay offline (RealBotEngine offline no_credentials) earbuds ''link'' w0
       = (Some (Local ''ebay_'' 0), w0)
   \<and> postToTikTok offline (RealBotEngine offline no_credentials) bare ''link'' w0 = (None, w0)
   \<and> postToEbay offline (RealBotEngine offline no_credentials) bare ''link'' w0 = (None, w0)
   \<and> twitter_access_token twitter_only = None
   \<and> twitter (RealBotEngine offline twitter_only)"
proof -
  have a: "ItemInfo earbuds \<noteq> None" "ItemInfo bare = None" "now w0 = 0"
    by (simp_all add: earbuds_def bare_def w0_def)
  have c: "\<not> (truthy (twitter_consumer_key no_credentials)
               \<and> truthy (twitter_consumer_secret no_credentials))"
    "\<not> (truthy (facebook_access_token no_credentials) \<and> truthy (facebook_page_id no_credentials))"
    "\<not> (truthy (instagram_access_token no_credentials)
         \<and> truthy (instagram_user_id no_credentials))"
    by (simp_all add: no_credentials_def)
  have t: "truthy (twitter_consumer_key twitter_only)" "truthy (twitter_consumer_secret twitter_only)"
    "twitter_ctor offline" "twitter_access_token twitter_only = None"
    by (simp_all add: twitter_only_def no_credentials_def offline_def)
  show ?thesis
    using publishers_without_credentials [where c = no_credentials and e = offline and p = earbuds
        and link = "''link''" and x = w0 and eng = "RealBotEngine offline no_credentials"]
      publishers_without_credentials [where c = twitter_only and e = offline and p = bare
        and link = "''link''" and x = w0 and eng = "RealBotEngine offline no_credentials"]
      a c t
    by simp
qed

text \<open>
  With no credential configured, the TikTok publisher returns an identifier instead of
  \<^verbatim>\<open>null\<close>, and the Pinterest publisher, which has no guard, sends its request.
\<close>

theorem postToTikTok_without_credentials_counterexample:
  "fst (postToTikTok offline (RealBotEngine offline no_credentials) earbuds
          (generateAffiliateLinks (RealBotEngine offline no_credentials) earbuds) w0)
     = Some (Local ''tiktok_'' 0)
   \<and> calls (snd (postToPinterest offline (RealBotEngine offline no_credentials) earbuds ''link'' w0))
     = [PinterestPin ''Wireless Earbuds'' ''link'']"
  by (simp add: postToTikTok_def postToPinterest_def request_def offline_def earbuds_def w0_def)

text \<open>
  Twitter configured with the consumer key and secret and no access token: the guard
  passes and the tweet is requested.
\<close>

lemma postToTwitter_without_access_token:
  "twitter_access_token twitter_only = None
   \<and> calls (snd (postToTwitter offline (RealBotEngine offline twitter_only) earbuds ''link'' w0))
     = [TwitterTweet ''Wireless Earbuds'' ''link'']"
  by (simp add: postToTwitter_def tweet_def request_def RealBotEngine_def initializeClients_def
      twitter_only_def no_credentials_def offline_def earbuds_def w0_def)

section \<open>The earnings aggregator\<close>

lemma calls_getAmazonEarnings: "calls (snd (getAmazonEarnings e x)) = calls x @ [AmazonEarnings]"
  by (simp add: getAmazonEarnings_def request_def split: sum.splits)

lemma calls_getClickbankEarnings:
  "calls (snd (getClickbankEarnings e x)) = calls x @ [ClickbankEarnings]"
  by (simp add: getClickbankEarnings_def request_def split: sum.splits)

lemma calls_getEbayEarnings:
  "\<exists>rest. calls (snd (getEbayEarnings e x)) = calls x @ EbayOAuth # rest"
  by (simp add: getEbayEarnings_def getEbayAccessToken_def request_def Let_def
      split: sum.splits prod.splits)

lemma getAmazonEarnings_failed:
  "amazon_earnings e (now x) = Inl msg \<Longrightarrow> fst (getAmazonEarnings e x) = 0"
  by (simp add: getAmazonEarnings_def)

lemma getClickbankEarnings_failed:
  "clickbank_earnings e (now x) = Inl msg \<Longrightarrow> fst (getClickbankEarnings e x) = 0"
  by (simp add: getClickbankEarnings_def)

lemma getEbayEarnings_failed:
  "ebay_oauth e (now x) = Inl msg \<Longrightarrow> fst (getEbayEarnings e x) = 0"
  by (simp add: getEbayEarnings_def getEbayAccessToken_def)

lemma getEbayEarnings_failed_later:
  "ebay_oauth e (now x) = Inr (Some tok) \<Longrightarrow> tok \<noteq> [] \<Longrightarrow>
   ebay_performance e (now (request e EbayOAuth x)) tok = Inl msg \<Longrightarrow>
   fst (getEbayEarnings e x) = 0"
  by (simp add: getEbayEarnings_def getEbayAccessToken_def)

lemma foldl_or_zero:
  "foldl (\<lambda>t item. t + or_zero item) a items
     = a + sum_list (map (\<lambda>i. case i of None \<Rightarrow> 0 | Some v \<Rightarrow> v) items)"
proof (induction items arbitrary: a)
  case Nil
  then show ?case by simp
next
  case (Cons i items)
  show ?case
    using Cons.IH [of "a + or_zero i"] by (cases i) simp_all
qed

lemma performance_total_sum:
  "performance_total (Some items) = sum_list (map (\<lambda>i. case i of None \<Rightarrow> 0 | Some v \<Rightarrow> v) items)"
  by (simp add: foldl_or_zero)

lemma getAmazonEarnings_eq:
  "getAmazonEarnings e x =
     ((case amazon_earnings e (now x) of Inr (Some v) \<Rightarrow> v | _ \<Rightarrow> 0), request e AmazonEarnings x)"
  by (simp add: getAmazonEarnings_def split: sum.splits option.splits)

lemma getClickbankEarnings_eq:
  "getClickbankEarnings e x =
     ((case clickbank_earnings e (now x) of Inr (Some v) \<Rightarrow> v | _ \<Rightarrow> 0),
      request e ClickbankEarnings x)"
  by (simp add: getClickbankEarnings_def split: sum.splits option.splits)

lemma getEbayEarnings_no_token:
  "(\<exists>msg. ebay_oauth e (now x) = Inl msg) \<or> (\<exists>tok. ebay_oauth e (now x) = Inr tok \<and> \<not> truthy tok)
   \<Longrightarrow> getEbayEarnings e x = (0, request e EbayOAuth x)"
  by (auto simp: getEbayEarnings_def getEbayAccessToken_def)

lemma getEbayEarnings_token:
  "ebay_oauth e (now x) = Inr (Some tok) \<Longrightarrow> tok \<noteq> [] \<Longrightarrow>
   getEbayEarnings e x =
     ((case ebay_performance e (now (request e EbayOAuth x)) tok of
         Inr (Some items) \<Rightarrow> sum_list (map (\<lambda>i. case i of None \<Rightarrow> 0 | Some v \<Rightarrow> v) items)
       | _ \<Rightarrow> 0),
      request e (EbayPerformance tok) (request e EbayOAuth x))"
  by (simp add: getEbayEarnings_def getEbayAccessToken_def foldl_or_zero
      split: sum.splits option.splits)

text \<open>
  Claim C4. \<^verbatim>\<open>trackAffiliateEarnings\<close> asks the three providers one after the other,
  whatever the others answered: the request to Amazon, then the one to ClickBank, then
  eBay's token request, followed by eBay's performance request when a token came
  back. The value reported for a provider is the figure that provider answered with
  (for eBay the sum of the rows' figures, an absent figure counting 0), and 0 when its
  request failed or its answer carried no figure. The total is the sum of the three
  reported values, and the timestamp is the clock after the last request.
\<close>

theorem trackAffiliateEarnings_sum:
  "(let x1 = request e AmazonEarnings x;
        x2 = request e ClickbankEarnings x1;
        x3 = request e EbayOAuth x2;
        r = fst (trackAffiliateEarnings e x)
    in e_total r = e_amazon r + e_clickbank r + e_ebay r
     \<and> e_amazon r = fst (getAmazonEarnings e x)
     \<and> e_clickbank r = fst (getClickbankEarnings e (snd (getAmazonEarnings e x)))
     \<and> e_ebay r = fst (getEbayEarnings e (snd (getClickbankEarnings e (snd (getAmazonEarnings e x)))))
     \<and> (\<forall>v. amazon_earnings e (now x) = Inr (Some v) \<longrightarrow> e_amazon r = v)
     \<and> (amazon_earnings e (now x) = Inr None \<longrightarrow> e_amazon r = 0)
     \<and> ((\<exists>msg. amazon_earnings e (now x) = Inl msg) \<longrightarrow> e_amazon r = 0)
     \<and> (\<forall>v. clickbank_earnings e (now x1) = Inr (Some v) \<longrightarrow> e_clickbank r = v)
     \<and> (clickbank_earnings e (now x1) = Inr None \<longrightarrow> e_clickbank r = 0)
     \<and> ((\<exists>msg. clickbank_earnings e (now x1) = Inl msg) \<longrightarrow> e_clickbank r = 0)
     \<and> ((\<exists>msg. ebay_oauth e (now x2) = Inl msg)
           \<or> (\<exists>tok. ebay_oauth e (now x2) = Inr tok \<and> \<not> truthy tok)
         \<longrightarrow> e_ebay r = 0 \<and> snd (trackAffiliateEarnings e x) = x3)
     \<and> (\<forall>tok. ebay_oauth e (now x2) = Inr (Some tok) \<and> tok \<noteq> []
         \<longrightarrow> snd (trackAffiliateEarnings e x) = request e (EbayPerformance tok) x3
           \<and> (\<forall>items. ebay_performance e (now x3) tok = Inr (Some items)
                 \<longrightarrow> e_ebay r = sum_list (map (\<lambda>i. case i of None \<Rightarrow> 0 | Some v \<Rightarrow> v) items))
           \<and> (ebay_performance e (now x3) tok = Inr None \<longrightarrow> e_ebay r = 0)
           \<and> ((\<exists>msg. ebay_performance e (now x3) tok = Inl msg) \<longrightarrow> e_ebay r = 0))
     \<and> e_timestamp r = now (snd (trackAffiliateEarnings e x))
     \<and> (\<exists>rest. calls (snd (trackAffiliateEarnings e x))
                 = calls x @ [AmazonEarnings, ClickbankEarnings, EbayOAuth] @ rest))"
proof -
  let ?x1 = "request e AmazonEarnings x"
  let ?x2 = "request e ClickbankEarnings ?x1"
  let ?x3 = "request e EbayOAuth ?x2"
  obtain a where g1: "getAmazonEarnings e x = (a, ?x1)"
    and a: "a = (case amazon_earnings e (now x) of Inr (Some v) \<Rightarrow> v | _ \<Rightarrow> 0)"
    using getAmazonEarnings_eq [of e x] by simp
  obtain c where g2: "getClickbankEarnings e ?x1 = (c, ?x2)"
    and c: "c = (case clickbank_earnings e (now ?x1) of Inr (Some v) \<Rightarrow> v | _ \<Rightarrow> 0)"
    using getClickbankEarnings_eq [of e ?x1] by simp
  obtain b y where g3: "getEbayEarnings e ?x2 = (b, y)"
    by (cases "getEbayEarnings e ?x2")
  have r: "trackAffiliateEarnings e x =
      (\<lparr> e_amazon = a, e_clickbank = c, e_ebay = b, e_total = a + c + b, e_timestamp = now y \<rparr>, y)"
    using g1 g2 g3 by (simp add: trackAffiliateEarnings_def)
  have am: "(\<forall>v. amazon_earnings e (now x) = Inr (Some v) \<longrightarrow> a = v)
      \<and> (amazon_earnings e (now x) = Inr None \<longrightarrow> a = 0)
      \<and> ((\<exists>msg. amazon_earnings e (now x) = Inl msg) \<longrightarrow> a = 0)"
    using a by auto
  have cb: "(\<forall>v. clickbank_earnings e (now ?x1) = Inr (Some v) \<longrightarrow> c = v)
      \<and> (clickbank_earnings e (now ?x1) = Inr None \<longrightarrow> c = 0)
      \<and> ((\<exists>msg. clickbank_earnings e (now ?x1) = Inl msg) \<longrightarrow> c = 0)"
    using c by auto
  have e0: "(\<exists>msg. ebay_oauth e (now ?x2) = Inl msg)
           \<or> (\<exists>tok. ebay_oauth e (now ?x2) = Inr tok \<and> \<not> truthy tok)
         \<longrightarrow> b = 0 \<and> y = ?x3"
    using getEbayEarnings_no_token [of e ?x2] g3 by auto
  have e1: "\<forall>tok. ebay_oauth e (now ?x2) = Inr (Some tok) \<and> tok \<noteq> []
         \<longrightarrow> y = request e (EbayPerformance tok) ?x3
           \<and> (\<forall>items. ebay_performance e (now ?x3) tok = Inr (Some items)
                 \<longrightarrow> b = sum_list (map (\<lambda>i. case i of None \<Rightarrow> 0 | Some v \<Rightarrow> v) items))
           \<and> (ebay_performance e (now ?x3) tok = Inr None \<longrightarrow> b = 0)
           \<and> ((\<exists>msg. ebay_performance e (now ?x3) tok = Inl msg) \<longrightarrow> b = 0)"
  proof (intro allI impI, elim conjE)
    fix tok
    assume t: "ebay_oauth e (now ?x2) = Inr (Some tok)" and n: "tok \<noteq> []"
    show "y = request e (EbayPerformance tok) ?x3
           \<and> (\<forall>items. ebay_performance e (now ?x3) tok = Inr (Some items)
                 \<longrightarrow> b = sum_list (map (\<lambda>i. case i of None \<Rightarrow> 0 | Some v \<Rightarrow> v) items))
           \<and> (ebay_performance e (now ?x3) tok = Inr None \<longrightarrow> b = 0)
           \<and> ((\<exists>msg. ebay_performance e (now ?x3) tok = Inl msg) \<longrightarrow> b = 0)"
      using getEbayEarnings_token [OF t n] g3 by auto
  qed
  obtain rest where c3: "calls y = calls ?x2 @ EbayOAuth # rest"
    using calls_getEbayEarnings [of e ?x2] g3 by auto
  have cl: "\<exists>rest. calls y = calls x @ [AmazonEarnings, ClickbankEarnings, EbayOAuth] @ rest"
    using c3 by (simp add: request_def)
  have ra: "e_amazon (fst (trackAffiliateEarnings e x)) = a"
    "e_clickbank (fst (trackAffiliateEarnings e x)) = c"
    "e_ebay (fst (trackAffiliateEarnings e x)) = b"
    "e_total (fst (trackAffiliateEarnings e x)) = a + c + b"
    "e_timestamp (fst (trackAffiliateEarnings e x)) = now y"
    "snd (trackAffiliateEarnings e x) = y"
    using r by simp_all
  have gs: "fst (getAmazonEarnings e x) = a" "snd (getAmazonEarnings e x) = ?x1"
    "fst (getClickbankEarnings e ?x1) = c" "snd (getClickbankEarnings e ?x1) = ?x2"
    "fst (getEbayEarnings e ?x2) = b"
    using g1 g2 g3 by simp_all
  show ?thesis
    unfolding Let_def ra gs
    using am cb e0 e1 cl by (intro conjI) blast+
qed

text \<open>
  Amazon's request fails and ClickBank reports 42: the total is 42 and Amazon counts 0.
  With every provider answering (10, 42, and rows of 5 and 3) the total is 60, after
  four requests.
\<close>

theorem trackAffiliateEarnings_sum_witness:
  "e_total (fst (trackAffiliateEarnings one_provider_up w0)) = 42
   \<and> e_amazon (fst (trackAffiliateEarnings one_provider_up w0)) = 0
   \<and> e_clickbank (fst (trackAffiliateEarnings one_provider_up w0)) = 42
   \<and> e_ebay (fst (trackAffiliateEarnings one_provider_up w0)) = 0
   \<and> e_amazon (fst (trackAffiliateEarnings providers_up w0)) = 10
   \<and> e_clickbank (fst (trackAffiliateEarnings providers_up w0)) = 42
   \<and> e_ebay (fst (trackAffiliateEarnings providers_up w0)) = 8
   \<and> e_total (fst (trackAffiliateEarnings providers_up w0)) = 60
   \<and> calls (snd (trackAffiliateEarnings providers_up w0))
       = [AmazonEarnings, ClickbankEarnings, EbayOAuth, EbayPerformance ''token'']"
proof -
  let ?r = "fst (trackAffiliateEarnings one_provider_up w0)"
  let ?q = "fst (trackAffiliateEarnings providers_up w0)"
  have down: "amazon_earnings one_provider_up t = Inl ''offline''"
    "clickbank_earnings one_provider_up t = Inr (Some 42)"
    "ebay_oauth one_provider_up t = Inl ''offline''" for t
    by (simp_all add: one_provider_up_def offline_def)
  have up: "amazon_earnings providers_up t = Inr (Some 10)"
    "clickbank_earnings providers_up t = Inr (Some 42)"
    "ebay_oauth providers_up t = Inr (Some ''token'')"
    "ebay_performance providers_up t ''token'' = Inr (Some [Some 5, None, Some 3])" for t
    by (simp_all add: providers_up_def offline_def)
  note one = trackAffiliateEarnings_sum [of one_provider_up w0, unfolded Let_def]
  note all = trackAffiliateEarnings_sum [of providers_up w0, unfolded Let_def]
  have r: "e_amazon ?r = 0" "e_clickbank ?r = 42" "e_ebay ?r = 0"
    using one down by auto
  have rt: "e_total ?r = e_amazon ?r + e_clickbank ?r + e_ebay ?r"
    using one by blast
  have q: "e_amazon ?q = 10" "e_clickbank ?q = 42"
    using all up by auto
  have qe: "e_ebay ?q = sum_list (map (\<lambda>i. case i of None \<Rightarrow> 0 | Some v \<Rightarrow> v) [Some 5, None, Some 3])"
    using all up by auto
  have qt: "e_total ?q = e_amazon ?q + e_clickbank ?q + e_ebay ?q"
    using all by blast
  have qw: "snd (trackAffiliateEarnings providers_up w0)
      = request providers_up (EbayPerformance ''token'')
          (request providers_up EbayOAuth
             (request providers_up ClickbankEarnings (request providers_up AmazonEarnings w0)))"
    using all up by auto
  have qc: "calls (snd (trackAffiliateEarnings providers_up w0))
      = [AmazonEarnings, ClickbankEarnings, EbayOAuth, EbayPerformance ''token'']"
    unfolding qw by (simp add: request_def w0_def)
  show ?thesis
    using r rt q qe qt qc by simp
qed

section \<open>The bot manager\<close>

text \<open>
  Claim C10. For a user that the registry does not hold, \<^verbatim>\<open>startBot\<close> throws a
  TypeError and leaves the whole state as it was: no timer is scheduled, no
  configuration stored, and the user is still absent afterwards (only
  \<^verbatim>\<open>/api/user-data\<close> creates users), so no active flag exists either.
\<close>

theorem startBot_unknown_user:
  "map_of (users s) userId = None \<Longrightarrow>
     (\<exists>msg. fst (startBot userId pf kws s) = Inl (TypeError msg))
     \<and> snd (startBot userId pf kws s) = s
     \<and> timers (snd (startBot userId pf kws s)) = timers s
     \<and> userConfigs (snd (startBot userId pf kws s)) = userConfigs s
     \<and> map_of (users (snd (startBot userId pf kws s))) userId = None"
  by (simp add: startBot_def)

text \<open>A start for a user nobody created, on the server right after start-up.\<close>

theorem startBot_unknown_user_witness:
  "(\<exists>msg. fst (startBot ''ghost'' ''twitter'' [''earbuds''] server0) = Inl (TypeError msg))
   \<and> snd (startBot ''ghost'' ''twitter'' [''earbuds''] server0) = server0
   \<and> timers (snd (startBot ''ghost'' ''twitter'' [''earbuds''] server0)) = []
   \<and> userConfigs (snd (startBot ''ghost'' ''twitter'' [''earbuds''] server0)) ''ghost_twitter'' = None
   \<and> map_of (users (snd (startBot ''ghost'' ''twitter'' [''earbuds''] server0))) ''ghost'' = None"
proof -
  have "map_of (users server0) ''ghost'' = None"
    by (simp add: server0_def)
  from startBot_unknown_user [OF this, of "''twitter''" "[''earbuds'']"]
  show ?thesis by (simp add: server0_def)
qed

subsection \<open>Configurations are stored by starts only\<close>

lemma userConfigs_emit: "userConfigs (emit room ev s) = userConfigs s"
  by (simp add: emit_def)

lemma userConfigs_startBot:
  "k \<noteq> bot_key userId pf \<Longrightarrow> userConfigs (snd (startBot userId pf kws s)) k = userConfigs s k"
  by (simp add: startBot_def setInterval_def emit_def Let_def split: option.splits)

lemma userConfigs_stopBot: "userConfigs (snd (stopBot userId pf s)) = userConfigs s"
  by (simp add: stopBot_def clearInterval_def emit_def Let_def split: option.splits)

lemma userConfigs_runRealBotCycle: "userConfigs (runRealBotCycle e userId pf s) = userConfigs s"
  by (simp add: runRealBotCycle_def emit_def Let_def split: option.splits prod.splits)

lemma userConfigs_fire: "userConfigs (fire e tid s) = userConfigs s"
  by (simp add: fire_def userConfigs_runRealBotCycle split: option.splits prod.splits)

lemma userConfigs_runManualCycle:
  "userConfigs (snd (runManualCycle e userId pf keyword s)) = userConfigs s"
  by (simp add: runManualCycle_def emit_def Let_def split: option.splits prod.splits)

lemma userConfigs_user_data: "userConfigs (snd (user_data userId s)) = userConfigs s"
  by (simp add: user_data_def split: option.splits)

lemma userConfigs_withdraw: "userConfigs (snd (withdraw e q s)) = userConfigs s"
  by (simp add: withdraw_def withdraw_failed_def withdraw_completed_def emit_def Let_def
      split: option.splits prod.splits sum.splits)

lemma userConfigs_server_track:
  "userConfigs (snd (server_trackAffiliateEarnings e userId s)) = userConfigs s"
  by (simp add: server_trackAffiliateEarnings_def Let_def split: option.splits prod.splits)

lemma userConfigs_track: "userConfigs (snd (track_earnings e g userId s)) = userConfigs s"
proof -
  obtain earnings s1 where t: "server_trackAffiliateEarnings e userId s = (earnings, s1)"
    by (cases "server_trackAffiliateEarnings e userId s")
  have "userConfigs s1 = userConfigs s"
    using userConfigs_server_track [of e userId s] t by simp
  then show ?thesis
    using t by (simp add: track_earnings_def guarded_update_def split: option.splits sum.splits)
qed

lemma userConfigs_background_users:
  "userConfigs (background_users e g ids s) = userConfigs s"
proof (induction ids arbitrary: s)
  case Nil
  then show ?case by simp
next
  case (Cons userId ids)
  obtain earnings s1 where t: "server_trackAffiliateEarnings e userId s = (earnings, s1)"
    by (cases "server_trackAffiliateEarnings e userId s")
  have "userConfigs s1 = userConfigs s"
    using userConfigs_server_track [of e userId s] t by simp
  then show ?case
    using t Cons.IH [of s1] by (simp add: guarded_update_def)
qed

lemma userConfigs_apply_op:
  "k \<notin> set (started_keys [op]) \<Longrightarrow> userConfigs (apply_op e g s op) k = userConfigs s k"
  by (cases op)
     (simp_all add: userConfigs_startBot userConfigs_stopBot userConfigs_fire
        userConfigs_runManualCycle userConfigs_user_data userConfigs_withdraw
        userConfigs_track userConfigs_background_users background_earnings_def)

lemma started_keys_Cons: "set (started_keys (op # ops)) = set (started_keys [op]) \<union> set (started_keys ops)"
  by (cases op) simp_all

lemma userConfigs_run_ops:
  "k \<notin> set (started_keys ops) \<Longrightarrow> userConfigs (run_ops e g ops s) k = userConfigs s k"
proof (induction ops arbitrary: s)
  case Nil
  then show ?case by (simp add: run_ops_def)
next
  case (Cons op ops)
  have k1: "k \<notin> set (started_keys [op])" and k2: "k \<notin> set (started_keys ops)"
    using Cons.prems started_keys_Cons [of op ops] by auto
  have "run_ops e g (op # ops) s = run_ops e g ops (apply_op e g s op)"
    by (simp add: run_ops_def)
  then show ?case
    using Cons.IH [OF k2, of "apply_op e g s op"] userConfigs_apply_op [OF k1, of e g s] by simp
qed

text \<open>
  \<^verbatim>\<open>runManualCycle\<close> looks the configuration up under the key
  \<^verbatim>\<open>`${userId}_${platform}`\<close> before anything else. When none is stored there, it
  throws the error \<^verbatim>\<open>Bot not started - start the bot first\<close> and the state is what it
  was: no user is changed, no event emitted, no request made. Only a start stores a
  configuration, and under its own key; so after any history in which no start had
  this key, from a state with nothing stored under it, the manual cycle fails in that
  way.
\<close>

lemma runManualCycle_not_started:
  "(userConfigs s (bot_key userId pf) = None
      \<longrightarrow> runManualCycle e userId pf keyword s
            = (Inl (Error ''Bot not started - start the bot first''), s))
   \<and> (userConfigs s0 (bot_key userId pf) = None \<and> bot_key userId pf \<notin> set (started_keys ops)
      \<longrightarrow> runManualCycle e userId pf keyword (run_ops e g ops s0)
            = (Inl (Error ''Bot not started - start the bot first''), run_ops e g ops s0))"
proof -
  have state: "userConfigs t (bot_key userId pf) = None
      \<Longrightarrow> runManualCycle e userId pf keyword t
            = (Inl (Error ''Bot not started - start the bot first''), t)" for t
    by (simp add: runManualCycle_def)
  show ?thesis
    using state [of s] state [of "run_ops e g ops s0"]
      userConfigs_run_ops [of "bot_key userId pf" ops e g s0]
    by simp
qed

text \<open>
  The user \<open>u1\<close> asks for a manual Twitter cycle: before anything was started, and
  after a Facebook bot was started, ticked and stopped.
\<close>

lemma runManualCycle_not_started_example:
  "runManualCycle offline ''u1'' ''twitter'' ''trending products'' server1
     = (Inl (Error ''Bot not started - start the bot first''), server1)
   \<and> runManualCycle offline ''u1'' ''twitter'' ''trending products''
       (run_ops offline (\<lambda>t. False)
          [Start ''u1'' ''facebook'' [], Fire 0, Stop ''u1'' ''facebook'', Track ''u1''] server1)
     = (Inl (Error ''Bot not started - start the bot first''),
        run_ops offline (\<lambda>t. False)
          [Start ''u1'' ''facebook'' [], Fire 0, Stop ''u1'' ''facebook'', Track ''u1''] server1)"
proof -
  have none: "userConfigs server1 (bot_key ''u1'' ''twitter'') = None"
    by (simp add: server1_def user_data_def server0_def)
  have fresh: "bot_key ''u1'' ''twitter''
      \<notin> set (started_keys [Start ''u1'' ''facebook'' [], Fire 0, Stop ''u1'' ''facebook'', Track ''u1''])"
    by (simp add: bot_key_def)
  show ?thesis
    using runManualCycle_not_started [where s = server1 and ?s0.0 = server1 and userId = "''u1''"
        and pf = "''twitter''" and e = offline and keyword = "''trending products''"
        and g = "\<lambda>t. False"
        and ops = "[Start ''u1'' ''facebook'' [], Fire 0, Stop ''u1'' ''facebook'', Track ''u1'']"]
      none fresh
    by simp
qed


subsection \<open>The recurring tick\<close>

lemma map_of_map_set: "map_of (map_set k v kvs) = (map_of kvs)(k \<mapsto> v)"
  by (induction kvs) auto

lemma or_zero_Some: "or_zero (Some v) = v"
  by simp





subsection \<open>Starting twice\<close>

lemma filter_keeps_older:
  "\<forall>t\<in>set ts. fst t < n \<Longrightarrow> filter (\<lambda>t. fst t \<noteq> Suc n) ts = ts"
  by (induction ts) auto

text \<open>
  Claim C1 asks that two starts and one stop for the same user and platform leave no
  timer for them. The code does otherwise: each start schedules a new interval timer
  and stores its handle under the key, over the handle of the first; the stop cancels
  the timer whose handle is stored, the second. For a known user, on a state whose
  timers are all older than the next handle, the first timer is still scheduled
  afterwards, while the manager holds no handle for the key any more.
\<close>

theorem start_twice_stop_once:
  "map_of (users s) userId = Some u \<Longrightarrow> \<forall>t\<in>set (timers s). fst t < next_timer s \<Longrightarrow>
   timers_of (snd (stopBot userId pf (snd (startBot userId pf kws' (snd (startBot userId pf kws s))))))
      userId pf
     = timers_of s userId pf @ [next_timer s]
   \<and> botIntervals (snd (stopBot userId pf (snd (startBot userId pf kws' (snd (startBot userId pf kws s))))))
        (bot_key userId pf) = None"
  by (simp add: stopBot_def startBot_def setInterval_def clearInterval_def emit_def timers_of_def
      map_of_map_set Let_def filter_keeps_older)

text \<open>On the server with the one user \<open>u1\<close>: timer 0 stays scheduled.\<close>

theorem start_twice_stop_once_witness:
  "timers_of started_twice_stopped ''u1'' ''twitter'' = [0]
   \<and> botIntervals started_twice_stopped (bot_key ''u1'' ''twitter'') = None"
proof -
  have u: "map_of (users server1) ''u1'' = Some (newUser ''u1'')"
    by (simp add: server1_def user_data_def server0_def)
  have t: "\<forall>t\<in>set (timers server1). fst t < next_timer server1"
    by (simp add: server1_def user_data_def server0_def)
  have z: "timers_of server1 ''u1'' ''twitter'' = []" "next_timer server1 = 0"
    by (simp_all add: timers_of_def server1_def user_data_def server0_def)
  show ?thesis
    using start_twice_stop_once [OF u t, of "''twitter''" "[]" "[]"] z
    by (simp add: started_twice_stopped_def)
qed

section \<open>The routes\<close>

subsection \<open>Withdrawals\<close>

lemma withdraw_failed_frame:
  "users (snd (withdraw_failed wid q msg s)) = users s \<and>
   withdrawals (snd (withdraw_failed wid q msg s)) = withdrawals s \<and>
   emitted (snd (withdraw_failed wid q msg s))
     = emitted s @ [(q_userId q, Withdrawal_status wid ''failed'' (q_amount q) (Inl msg))]"
  by (simp add: withdraw_failed_def emit_def)

text \<open>
  Claim C5. When the payment processor reports that the payment did not succeed, the
  route \<^verbatim>\<open>/api/withdraw\<close> answers with a failure and emits a failed status; the user
  registry is what it was, so no balance is decremented and no withdrawal history
  grows, and the global withdrawal index is what it was. The same holds when
  processing the payment throws.
\<close>

theorem withdraw_payment_failure:
  "(fst (processWithdrawal e (paypalClient s) q (outside s)) = Inr pay \<and> \<not> success pay
      \<longrightarrow> fst (withdraw e q s) = Withdraw_failed ''Payment processing failed''
        \<and> users (snd (withdraw e q s)) = users s
        \<and> withdrawals (snd (withdraw e q s)) = withdrawals s
        \<and> emitted (snd (withdraw e q s))
            = emitted s @ [(q_userId q, Withdrawal_status (now (outside s)) ''failed'' (q_amount q)
                                          (Inl ''Payment processing failed''))])
   \<and> (fst (processWithdrawal e (paypalClient s) q (outside s)) = Inl err
      \<longrightarrow> fst (withdraw e q s) = Withdraw_failed (error_message err)
        \<and> users (snd (withdraw e q s)) = users s
        \<and> withdrawals (snd (withdraw e q s)) = withdrawals s)"
proof -
  obtain r x1 where p: "processWithdrawal e (paypalClient s) q (outside s) = (r, x1)"
    by (cases "processWithdrawal e (paypalClient s) q (outside s)")
  show ?thesis
    using p withdraw_failed_frame [of "now (outside s)" q _ "s\<lparr>outside := x1\<rparr>"]
    by (auto simp: withdraw_def withdraw_failed_def)
qed

text \<open>
  Stripe reporting \<^verbatim>\<open>requires_action\<close> for a withdrawal of 25, and a PayPal withdrawal
  on a server without a PayPal client.
\<close>

theorem withdraw_payment_failure_witness:
  "fst (withdraw declined \<lparr> q_userId = ''u1'', q_amount = 25, q_method = ''stripe'' \<rparr> server1)
     = Withdraw_failed ''Payment processing failed''
   \<and> users (snd (withdraw declined \<lparr> q_userId = ''u1'', q_amount = 25, q_method = ''stripe'' \<rparr> server1))
     = users server1
   \<and> withdrawals (snd (withdraw declined \<lparr> q_userId = ''u1'', q_amount = 25, q_method = ''stripe'' \<rparr> server1))
     = withdrawals server1
   \<and> fst (withdraw offline \<lparr> q_userId = ''u1'', q_amount = 25, q_method = ''paypal'' \<rparr> server1)
     = Withdraw_failed ''PayPal not configured''
   \<and> users (snd (withdraw offline \<lparr> q_userId = ''u1'', q_amount = 25, q_method = ''paypal'' \<rparr> server1))
     = users server1"
proof -
  let ?q = "\<lparr> q_userId = ''u1'', q_amount = 25, q_method = ''stripe'' \<rparr>"
  let ?p = "\<lparr> q_userId = ''u1'', q_amount = 25, q_method = ''paypal'' \<rparr>"
  let ?pay = "\<lparr> success = False, transactionId = Txn ''pi_1'', fee = 25 * 0.029 + 0.30,
                processingTime = ''instant'' \<rparr>"
  have d: "fst (processWithdrawal declined (paypalClient server1) ?q (outside server1)) = Inr ?pay"
    by (simp add: processWithdrawal_def declined_def offline_def)
  have o: "fst (processWithdrawal offline (paypalClient server1) ?p (outside server1))
      = Inl (Error ''PayPal not configured'')"
    by (simp add: processWithdrawal_def server1_def user_data_def server0_def)
  show ?thesis
    using withdraw_payment_failure [where e = declined and s = server1 and q = ?q and pay = ?pay]
      withdraw_payment_failure [where e = offline and s = server1 and q = ?p
        and err = "Error ''PayPal not configured''"]
      d o
    by simp
qed

subsection \<open>Earnings tracking\<close>

lemma earnings_object_no_length: "\<not> length_positive g (earnings_object r t)"
  by (cases r) simp_all

lemma server_track_no_length:
  "\<not> length_positive g (fst (server_trackAffiliateEarnings e userId s))"
proof (cases "map_of (users s) userId")
  case None
  then show ?thesis by (simp add: server_trackAffiliateEarnings_def)
next
  case (Some u)
  obtain r x1 where t: "trackAffiliateEarnings e (outside s) = (r, x1)"
    by (cases "trackAffiliateEarnings e (outside s)")
  have "fst (server_trackAffiliateEarnings e userId s) = earnings_object (Inr r) (now x1)"
    using Some t by (simp add: server_trackAffiliateEarnings_def)
  then show ?thesis
    using earnings_object_no_length [of g "Inr r" "now x1"] by simp
qed

lemma users_server_track: "users (snd (server_trackAffiliateEarnings e userId s)) = users s"
  by (simp add: server_trackAffiliateEarnings_def Let_def split: option.splits prod.splits)

lemma users_background_users: "users (background_users e g ids s) = users s"
proof (induction ids arbitrary: s)
  case Nil
  then show ?case by simp
next
  case (Cons userId ids)
  obtain earnings s1 where t: "server_trackAffiliateEarnings e userId s = (earnings, s1)"
    by (cases "server_trackAffiliateEarnings e userId s")
  have "users s1 = users s"
    using users_server_track [of e userId s] t by simp
  then show ?case
    using t Cons.IH [of s1] by (simp add: guarded_update_def)
qed

text \<open>
  Claim C9. The value the server-side \<^verbatim>\<open>trackAffiliateEarnings\<close> returns is an object
  literal with no property \<^verbatim>\<open>length\<close>, so the guard \<^verbatim>\<open>earnings.length > 0\<close> is false
  on every call, whatever the user, the earnings and the third parties' answers: the
  guarded update never runs. The route \<^verbatim>\<open>/api/track-earnings\<close> answers with the
  earnings and leaves every user as it was, and so does a round of the background
  loop.
\<close>

theorem earnings_guard_never_holds:
  "\<not> length_positive g (fst (server_trackAffiliateEarnings e userId s))
   \<and> guarded_update g (fst (server_trackAffiliateEarnings e userId s)) s' = Inr s'
   \<and> fst (track_earnings e g userId s) = Tracked (fst (server_trackAffiliateEarnings e userId s))
   \<and> users (snd (track_earnings e g userId s)) = users s
   \<and> users (background_earnings e g s) = users s"
proof -
  obtain earnings s1 where t: "server_trackAffiliateEarnings e userId s = (earnings, s1)"
    by (cases "server_trackAffiliateEarnings e userId s")
  have guard: "\<not> length_positive g earnings"
    using server_track_no_length [of g e userId s] t by simp
  have same: "users s1 = users s"
    using users_server_track [of e userId s] t by simp
  have route: "track_earnings e g userId s = (Tracked earnings, s1)"
    using t guard by (simp add: track_earnings_def guarded_update_def split: option.splits)
  show ?thesis
    using t guard same route users_background_users [of e g "map fst (users s)" s]
    by (simp add: guarded_update_def background_earnings_def)
qed

text \<open>A user, a provider reporting earnings of 42, and a runtime in which every string exceeds 0.\<close>

theorem earnings_guard_never_holds_witness:
  "\<not> length_positive (\<lambda>t. True) (fst (server_trackAffiliateEarnings one_provider_up ''u1'' server1))
   \<and> users (snd (track_earnings one_provider_up (\<lambda>t. True) ''u1'' server1)) = [(''u1'', newUser ''u1'')]
   \<and> users (background_earnings one_provider_up (\<lambda>t. True) server1) = [(''u1'', newUser ''u1'')]"
  using earnings_guard_never_holds [where g = "\<lambda>t. True" and e = one_provider_up
      and userId = "''u1''" and s = server1 and s' = server1]
  by (simp add: server1_def user_data_def server0_def)

end
